theory Spec2Isabelle
  imports Main "HOL-Library.Word"
begin

section \<open>Types the bridge takes from other packages\<close>

text \<open>
  The bridge of \<^verbatim>\<open>internal/syncasync/sync_async_bridge.go\<close> uses the types of
  \<^verbatim>\<open>pkg/fftypes\<close>, the database plugin, the data manager, the system event bus and
  \<^verbatim>\<open>txcommon\<close>. Only the fields and methods the bridge reads are kept. A Go pointer
  that may be nil is an \<open>option\<close>; a Go result pair \<^verbatim>\<open>(value, error)\<close> is a pair of
  options.
\<close>

text \<open>\<^verbatim>\<open>fftypes.UUID\<close> is an array of 16 bytes.\<close>

type_synonym UUID = "128 word"

text \<open>
  A \<^verbatim>\<open>*fftypes.UUID\<close>: nil, or the address of a UUID object in memory. The callback
  reads the ids of the entities the database returns once, as values; the id a caller
  passes to a \<^verbatim>\<open>WaitFor...\<close> entry point is a pointer that the code dereferences more
  than once, so it is kept as a pointer.
\<close>

type_synonym UUIDptr = "nat option"

text \<open>
  The errors the bridge builds with \<^verbatim>\<open>i18n.NewError\<close>, and the errors it passes
  through from its collaborators (\<open>PluginError\<close>). \<open>MsgRequestTimeout\<close> carries the
  elapsed time as clock ticks; the source converts it to float milliseconds.
\<close>

datatype error =
    MsgRequestTimeout "UUID option" int
  | MsgRejected "UUID option"
  | MsgTokenPoolRejected "UUID option"
  | MsgTokenTransferFailed "UUID option"
  | PluginError string

text \<open>What a call does: it returns a value, returns an error, or panics.\<close>

datatype 'a result = Ok 'a | Err error | Panic

record Message =
  Header_ID :: "UUID option"
  Header_CID :: "UUID option"

type_synonym Data = string

record MessageInOut =
  InOut_Message :: Message
  InlineData :: "Data list"

record TokenPool =
  Pool_ID :: "UUID option"

record TokenTransfer =
  LocalID :: "UUID option"

record Operation =
  Op_ID :: "UUID option"
  Input :: string

text \<open>
  \<^verbatim>\<open>fftypes.EventType\<close> is a string type; the six constants the callback switches on
  are constructors, every other value is \<open>EventTypeOther\<close>.
\<close>

datatype EventType =
    EventTypeMessageConfirmed
  | EventTypeMessageRejected
  | EventTypePoolConfirmed
  | EventTypePoolRejected
  | EventTypeTransferConfirmed
  | EventTypeTransferOpFailed
  | EventTypeOther string

record EventDelivery =
  Event_ID :: "UUID option"
  Type :: EventType
  Namespace :: string
  Reference :: "UUID option"

text \<open>The four lookups of \<^verbatim>\<open>database.Plugin\<close> the bridge calls.\<close>

record database_Plugin =
  GetMessageByID :: "UUID option \<Rightarrow> Message option \<times> error option"
  GetTokenPoolByID :: "UUID option \<Rightarrow> TokenPool option \<times> error option"
  GetTokenTransfer :: "UUID option \<Rightarrow> TokenTransfer option \<times> error option"
  GetOperationByID :: "UUID option \<Rightarrow> Operation option \<times> error option"

text \<open>\<^verbatim>\<open>data.Manager\<close>: the bridge calls \<^verbatim>\<open>GetMessageData\<close> and ignores its middle result.\<close>

record data_Manager =
  GetMessageData :: "Message \<Rightarrow> Data list \<times> error option"

text \<open>
  \<^verbatim>\<open>sysmessaging.SystemEvents\<close>: \<^verbatim>\<open>AddSystemEventListener(ns, callback)\<close>. The bridge
  always passes its own \<^verbatim>\<open>eventCallback\<close>, so the namespace is the only argument kept.
\<close>

type_synonym SystemEvents = "string \<Rightarrow> error option"

text \<open>
  \<^verbatim>\<open>txcommon.RetrieveTokenTransferInputs(ctx, op, &transfer)\<close> fills the transfer it is
  given and returns an error. Its code is not part of the bridge, so the callback takes it
  as a parameter.
\<close>

type_synonym RetrieveInputs = "Operation \<Rightarrow> TokenTransfer \<Rightarrow> TokenTransfer \<times> error option"

section \<open>The bridge\<close>

datatype requestType = messageConfirm | messageReply | tokenPoolConfirm | tokenTransferConfirm

text \<open>
  A Go channel value: the identity of the channel and the capacity it was made with.
  \<^verbatim>\<open>make(chan T)\<close> makes a channel of capacity 0.
\<close>

datatype chan = Chan (chanId: nat) (chanCap: nat)

text \<open>The dynamic type behind the \<^verbatim>\<open>interface{}\<close> of a response.\<close>

datatype payload =
    NoData
  | MessageData Message
  | MessageInOutData MessageInOut
  | TokenPoolData TokenPool
  | TokenTransferData TokenTransfer

record inflightResponse =
  reply_id :: "UUID option"
  reply_data :: payload
  reply_err :: "error option"

record inflightRequest =
  inflight_id :: "UUID option"
  startTime :: int
  response :: chan
  reqType :: requestType

type_synonym inflightRequestMap = "string \<rightharpoonup> (UUID \<rightharpoonup> inflightRequest)"

text \<open>A \<^verbatim>\<open>go\<close> statement of the callback: the resolver started and its arguments.\<close>

datatype goroutine =
    GoResolveReply inflightRequest Message
  | GoResolveConfirmed inflightRequest Message
  | GoResolveRejected inflightRequest "UUID option"
  | GoResolveConfirmedTokenPool inflightRequest TokenPool
  | GoResolveRejectedTokenPool inflightRequest "UUID option"
  | GoResolveConfirmedTokenTransfer inflightRequest TokenTransfer
  | GoResolveFailedTokenTransfer inflightRequest "UUID option"

datatype dbRead =
    ReadMessage "UUID option"
  | ReadTokenPool "UUID option"
  | ReadTokenTransfer "UUID option"
  | ReadOperation "UUID option"
  | ReadMessageData "UUID option"

text \<open>
  The struct \<^verbatim>\<open>syncAsyncBridge\<close> (\<open>database\<close>, \<open>data\<close>, \<open>sysevents\<close>, \<open>inflight\<close>), together
  with the part of the Go runtime its code acts on and a trace of its calls:
  \<^item> \<open>clock\<close> is what \<^verbatim>\<open>time.Now()\<close> reads, \<open>nextChan\<close> the identity of the next channel
    \<^verbatim>\<open>make\<close> returns;
  \<^item> \<open>uuids\<close> is the memory that holds the UUID objects the callers' id pointers refer
    to; the callers and their \<^verbatim>\<open>send\<close> callbacks can write to it;
  \<^item> \<open>chanBuf\<close> is the buffer of each channel, \<open>blockedSends\<close> the goroutines parked in a
    send statement with the value they send, oldest first;
  \<^item> \<open>goroutines\<close> are the \<^verbatim>\<open>go\<close> statements executed whose goroutine has not run yet;
  \<^item> \<open>listenerCalls\<close> records each call of \<^verbatim>\<open>AddSystemEventListener\<close> with its result,
    \<open>dbReads\<close> each read of the database.
  The mutex \<^verbatim>\<open>inflightMux\<close> is held over the whole body of \<^verbatim>\<open>addInFlight\<close>,
  \<^verbatim>\<open>removeInFlight\<close> and \<^verbatim>\<open>eventCallback\<close>, so each is one atomic function of the state.
\<close>

record syncAsyncBridge =
  database :: database_Plugin
  data :: data_Manager
  sysevents :: "SystemEvents option"
  inflight :: inflightRequestMap
  clock :: int
  nextChan :: nat
  uuids :: "nat \<Rightarrow> UUID"
  chanBuf :: "nat \<Rightarrow> inflightResponse list"
  blockedSends :: "(chan \<times> inflightResponse) list"
  goroutines :: "goroutine list"
  listenerCalls :: "(string \<times> error option) list"
  dbReads :: "dbRead list"

definition NewSyncAsyncBridge :: "database_Plugin \<Rightarrow> data_Manager \<Rightarrow> syncAsyncBridge" where
  "NewSyncAsyncBridge di dm =
     \<lparr>database = di, data = dm, sysevents = None, inflight = Map.empty,
      clock = 0, nextChan = 0, uuids = (\<lambda>_. 0),
      chanBuf = (\<lambda>_. []), blockedSends = [], goroutines = [],
      listenerCalls = [], dbReads = []\<rparr>"

definition Init :: "syncAsyncBridge \<Rightarrow> SystemEvents option \<Rightarrow> syncAsyncBridge" where
  "Init sa se = sa\<lparr>sysevents := se\<rparr>"

text \<open>\<^verbatim>\<open>*id\<close>, guarded by \<^verbatim>\<open>id != nil\<close>: the UUID a pointer refers to at this moment.\<close>

definition deref :: "syncAsyncBridge \<Rightarrow> UUIDptr \<Rightarrow> UUID option" where
  "deref sa p = map_option (uuids sa) p"

text \<open>
  \<^verbatim>\<open>addInFlight\<close>, lines 101-124. Its argument \<open>i\<close> is what the id pointer refers to when
  it is called (\<open>None\<close> for a nil pointer), and the request keeps that UUID; the pointer
  itself stays with \<^verbatim>\<open>sendAndWait\<close>, the only code that dereferences it again.
  The request is built first (a fresh channel of
  capacity 0). When the namespace has no row, the listener is attached: a nil
  \<open>sysevents\<close> panics, an error is returned before anything is stored. Then the request
  is stored under \<^verbatim>\<open>*inflight.id\<close>, which panics on a nil id and otherwise replaces
  whatever the row held for that id.
\<close>

definition addInFlight ::
  "syncAsyncBridge \<Rightarrow> string \<Rightarrow> UUID option \<Rightarrow> requestType
     \<Rightarrow> syncAsyncBridge \<times> inflightRequest result" where
  "addInFlight sa ns i rt =
     (let infl = \<lparr>inflight_id = i, startTime = clock sa,
                  response = Chan (nextChan sa) 0, reqType = rt\<rparr>;
          sa1 = sa\<lparr>nextChan := Suc (nextChan sa)\<rparr>;
          store = (\<lambda>s inflightNS.
             case inflight_id infl of
               None \<Rightarrow> (s, Panic)
             | Some k \<Rightarrow> (s\<lparr>inflight := (inflight s)(ns \<mapsto> inflightNS(k \<mapsto> infl))\<rparr>, Ok infl))
      in case inflight sa1 ns of
           None \<Rightarrow>
             (case sysevents sa1 of
                None \<Rightarrow> (sa1, Panic)
              | Some AddSystemEventListener \<Rightarrow>
                  (let err = AddSystemEventListener ns;
                       sa2 = sa1\<lparr>listenerCalls := listenerCalls sa1 @ [(ns, err)]\<rparr>
                   in case err of
                        Some e \<Rightarrow> (sa2, Err e)
                      | None \<Rightarrow>
                          store (sa2\<lparr>inflight := (inflight sa2)(ns \<mapsto> Map.empty)\<rparr>)
                            Map.empty))
         | Some inflightNS \<Rightarrow> store sa1 inflightNS)"

text \<open>\<^verbatim>\<open>getInFlight\<close>, lines 126-135.\<close>

definition getInFlight ::
  "syncAsyncBridge \<Rightarrow> string \<Rightarrow> requestType \<Rightarrow> UUID option \<Rightarrow> inflightRequest option" where
  "getInFlight sa ns rt i =
     (case (inflight sa ns, i) of
        (Some inflightNS, Some k) \<Rightarrow>
          (case inflightNS k of
             Some infl \<Rightarrow> if reqType infl = rt then Some infl else None
           | None \<Rightarrow> None)
      | _ \<Rightarrow> None)"

text \<open>
  \<^verbatim>\<open>removeInFlight\<close>, lines 137-146: \<^verbatim>\<open>delete(inflightNS, *id)\<close> runs only when the
  namespace has a row, and panics there on a nil id.
\<close>

definition removeInFlight ::
  "syncAsyncBridge \<Rightarrow> string \<Rightarrow> UUID option \<Rightarrow> syncAsyncBridge \<times> unit result" where
  "removeInFlight sa ns i =
     (case inflight sa ns of
        None \<Rightarrow> (sa, Ok ())
      | Some inflightNS \<Rightarrow>
          (case i of
             None \<Rightarrow> (sa, Panic)
           | Some k \<Rightarrow> (sa\<lparr>inflight := (inflight sa)(ns \<mapsto> inflightNS(k := None))\<rparr>, Ok ())))"

text \<open>\<^verbatim>\<open>msInflight\<close>, lines 148-151, in clock ticks.\<close>

definition msInflight :: "syncAsyncBridge \<Rightarrow> inflightRequest \<Rightarrow> int" where
  "msInflight sa infl = clock sa - startTime infl"

section \<open>Matching events\<close>

text \<open>
  The four \<^verbatim>\<open>get...FromEvent\<close> functions, lines 153-195: one database read each, logged
  in \<open>dbReads\<close>; an error drops the value read.
\<close>

definition getMessageFromEvent ::
  "syncAsyncBridge \<Rightarrow> EventDelivery \<Rightarrow> syncAsyncBridge \<times> Message option \<times> error option" where
  "getMessageFromEvent sa event =
     (let (msg, err) = GetMessageByID (database sa) (Reference event);
          sa1 = sa\<lparr>dbReads := dbReads sa @ [ReadMessage (Reference event)]\<rparr>
      in if err \<noteq> None then (sa1, None, err) else (sa1, msg, None))"

definition getPoolFromEvent ::
  "syncAsyncBridge \<Rightarrow> EventDelivery \<Rightarrow> syncAsyncBridge \<times> TokenPool option \<times> error option" where
  "getPoolFromEvent sa event =
     (let (pool, err) = GetTokenPoolByID (database sa) (Reference event);
          sa1 = sa\<lparr>dbReads := dbReads sa @ [ReadTokenPool (Reference event)]\<rparr>
      in if err \<noteq> None then (sa1, None, err) else (sa1, pool, None))"

definition getTransferFromEvent ::
  "syncAsyncBridge \<Rightarrow> EventDelivery
     \<Rightarrow> syncAsyncBridge \<times> TokenTransfer option \<times> error option" where
  "getTransferFromEvent sa event =
     (let (transfer, err) = GetTokenTransfer (database sa) (Reference event);
          sa1 = sa\<lparr>dbReads := dbReads sa @ [ReadTokenTransfer (Reference event)]\<rparr>
      in if err \<noteq> None then (sa1, None, err) else (sa1, transfer, None))"

definition getOperationFromEvent ::
  "syncAsyncBridge \<Rightarrow> EventDelivery \<Rightarrow> syncAsyncBridge \<times> Operation option \<times> error option" where
  "getOperationFromEvent sa event =
     (let (op, err) = GetOperationByID (database sa) (Reference event);
          sa1 = sa\<lparr>dbReads := dbReads sa @ [ReadOperation (Reference event)]\<rparr>
      in if err \<noteq> None then (sa1, None, err) else (sa1, op, None))"

text \<open>\<^verbatim>\<open>len(inflightNS) == 0\<close>: a nil map and an empty map both have length 0.\<close>

definition lenZero :: "(UUID \<rightharpoonup> inflightRequest) option \<Rightarrow> bool" where
  "lenZero inflightNS = (case inflightNS of None \<Rightarrow> True | Some m \<Rightarrow> m = Map.empty)"

text \<open>\<^verbatim>\<open>if inflight != nil { go sa.resolve...(inflight, ...) }\<close>.\<close>

definition goIfFound ::
  "syncAsyncBridge \<Rightarrow> inflightRequest option \<Rightarrow> (inflightRequest \<Rightarrow> goroutine)
     \<Rightarrow> syncAsyncBridge" where
  "goIfFound sa found resolver =
     (case found of
        None \<Rightarrow> sa
      | Some infl \<Rightarrow> sa\<lparr>goroutines := goroutines sa @ [resolver infl]\<rparr>)"

text \<open>
  \<^verbatim>\<open>eventCallback\<close>, lines 197-287. It returns the error it hands back to the event bus
  (\<open>None\<close> is nil); the resolvers it starts are appended to \<open>goroutines\<close>.
\<close>

definition eventCallback ::
  "RetrieveInputs \<Rightarrow> syncAsyncBridge \<Rightarrow> EventDelivery \<Rightarrow> syncAsyncBridge \<times> error option" where
  "eventCallback RetrieveTokenTransferInputs sa event =
     (if lenZero (inflight sa (Namespace event)) then (sa, None)
      else case Type event of
        EventTypeMessageConfirmed \<Rightarrow>
          (case getMessageFromEvent sa event of
             (sa1, Some msg, None) \<Rightarrow>
               (let inflightReply = getInFlight sa1 (Namespace event) messageReply (Header_CID msg);
                    sa2 = goIfFound sa1 inflightReply (\<lambda>i. GoResolveReply i msg);
                    infl = getInFlight sa2 (Namespace event) messageConfirm (Header_ID msg);
                    sa3 = goIfFound sa2 infl (\<lambda>i. GoResolveConfirmed i msg)
                in (sa3, None))
           | (sa1, _, err) \<Rightarrow> (sa1, err))
      | EventTypeMessageRejected \<Rightarrow>
          (case getMessageFromEvent sa event of
             (sa1, Some msg, None) \<Rightarrow>
               (let infl = getInFlight sa1 (Namespace event) messageConfirm (Header_ID msg)
                in (goIfFound sa1 infl (\<lambda>i. GoResolveRejected i (Header_ID msg)), None))
           | (sa1, _, err) \<Rightarrow> (sa1, err))
      | EventTypePoolConfirmed \<Rightarrow>
          (case getPoolFromEvent sa event of
             (sa1, Some pool, None) \<Rightarrow>
               (let infl = getInFlight sa1 (Namespace event) tokenPoolConfirm (Pool_ID pool)
                in (goIfFound sa1 infl (\<lambda>i. GoResolveConfirmedTokenPool i pool), None))
           | (sa1, _, err) \<Rightarrow> (sa1, err))
      | EventTypePoolRejected \<Rightarrow>
          (case getPoolFromEvent sa event of
             (sa1, Some pool, None) \<Rightarrow>
               (let infl = getInFlight sa1 (Namespace event) tokenPoolConfirm (Pool_ID pool)
                in (goIfFound sa1 infl (\<lambda>i. GoResolveRejectedTokenPool i (Pool_ID pool)), None))
           | (sa1, _, err) \<Rightarrow> (sa1, err))
      | EventTypeTransferConfirmed \<Rightarrow>
          (case getTransferFromEvent sa event of
             (sa1, Some transfer, None) \<Rightarrow>
               (let infl = getInFlight sa1 (Namespace event) tokenTransferConfirm
                             (LocalID transfer)
                in (goIfFound sa1 infl (\<lambda>i. GoResolveConfirmedTokenTransfer i transfer), None))
           | (sa1, _, err) \<Rightarrow> (sa1, err))
      | EventTypeTransferOpFailed \<Rightarrow>
          (case getOperationFromEvent sa event of
             (sa1, Some op, None) \<Rightarrow>
               (let (transfer, err) = RetrieveTokenTransferInputs op \<lparr>LocalID = None\<rparr>;
                    infl = getInFlight sa1 (Namespace event) tokenTransferConfirm
                             (LocalID transfer)
                in (goIfFound sa1 infl
                      (\<lambda>i. GoResolveFailedTokenTransfer i (LocalID transfer)), None))
           | (sa1, _, err) \<Rightarrow> (sa1, err))
      | EventTypeOther _ \<Rightarrow> (sa, None))"

section \<open>Channels and resolvers\<close>

text \<open>
  The send statement \<^verbatim>\<open>ch <- v\<close> of Go: the value goes into the buffer when the buffer
  has room; otherwise the goroutine parks until a receiver takes the value from it. A
  channel of capacity 0 has no room, ever.
\<close>

definition chanSend :: "syncAsyncBridge \<Rightarrow> chan \<Rightarrow> inflightResponse \<Rightarrow> syncAsyncBridge" where
  "chanSend sa ch v =
     (if length (chanBuf sa (chanId ch)) < chanCap ch
      then sa\<lparr>chanBuf := (chanBuf sa)(chanId ch := chanBuf sa (chanId ch) @ [v])\<rparr>
      else sa\<lparr>blockedSends := blockedSends sa @ [(ch, v)]\<rparr>)"

text \<open>The oldest goroutine parked in a send on the channel, and the list without it.\<close>

fun takeSender ::
  "chan \<Rightarrow> (chan \<times> inflightResponse) list
     \<Rightarrow> (inflightResponse \<times> (chan \<times> inflightResponse) list) option" where
  "takeSender ch [] = None"
| "takeSender ch ((c, v) # rest) =
     (if c = ch then Some (v, rest)
      else map_option (\<lambda>(w, rest'). (w, (c, v) # rest')) (takeSender ch rest))"

text \<open>
  The receive \<^verbatim>\<open><-ch\<close> when it can proceed: from the buffer, which the oldest parked
  sender then refills, or straight from the oldest parked sender. \<open>None\<close>: it would block.
\<close>

definition chanRecv ::
  "syncAsyncBridge \<Rightarrow> chan \<Rightarrow> (inflightResponse \<times> syncAsyncBridge) option" where
  "chanRecv sa ch =
     (case chanBuf sa (chanId ch) of
        v # vs \<Rightarrow>
          (case takeSender ch (blockedSends sa) of
             None \<Rightarrow> Some (v, sa\<lparr>chanBuf := (chanBuf sa)(chanId ch := vs)\<rparr>)
           | Some (w, rest) \<Rightarrow>
               Some (v, sa\<lparr>chanBuf := (chanBuf sa)(chanId ch := vs @ [w]),
                           blockedSends := rest\<rparr>))
      | [] \<Rightarrow>
          (case takeSender ch (blockedSends sa) of
             None \<Rightarrow> None
           | Some (w, rest) \<Rightarrow> Some (w, sa\<lparr>blockedSends := rest\<rparr>)))"

text \<open>
  The seven resolvers, lines 289-333. Each ends in a plain send statement on the
  request's channel; \<^verbatim>\<open>resolveReply\<close> returns without sending when the data cannot be read.
\<close>

definition resolveReply :: "syncAsyncBridge \<Rightarrow> inflightRequest \<Rightarrow> Message \<Rightarrow> syncAsyncBridge" where
  "resolveReply sa infl msg =
     (let (d, err) = GetMessageData (data sa) msg;
          sa1 = sa\<lparr>dbReads := dbReads sa @ [ReadMessageData (Header_ID msg)]\<rparr>
      in if err \<noteq> None then sa1
         else chanSend sa1 (response infl)
                \<lparr>reply_id = Header_ID msg,
                 reply_data = MessageInOutData \<lparr>InOut_Message = msg, InlineData = d\<rparr>,
                 reply_err = None\<rparr>)"

definition resolveConfirmed ::
  "syncAsyncBridge \<Rightarrow> inflightRequest \<Rightarrow> Message \<Rightarrow> syncAsyncBridge" where
  "resolveConfirmed sa infl msg =
     chanSend sa (response infl)
       \<lparr>reply_id = Header_ID msg, reply_data = MessageData msg, reply_err = None\<rparr>"

definition resolveRejected ::
  "syncAsyncBridge \<Rightarrow> inflightRequest \<Rightarrow> UUID option \<Rightarrow> syncAsyncBridge" where
  "resolveRejected sa infl msgID =
     chanSend sa (response infl)
       \<lparr>reply_id = None, reply_data = NoData, reply_err = Some (MsgRejected msgID)\<rparr>"

definition resolveConfirmedTokenPool ::
  "syncAsyncBridge \<Rightarrow> inflightRequest \<Rightarrow> TokenPool \<Rightarrow> syncAsyncBridge" where
  "resolveConfirmedTokenPool sa infl pool =
     chanSend sa (response infl)
       \<lparr>reply_id = Pool_ID pool, reply_data = TokenPoolData pool, reply_err = None\<rparr>"

definition resolveRejectedTokenPool ::
  "syncAsyncBridge \<Rightarrow> inflightRequest \<Rightarrow> UUID option \<Rightarrow> syncAsyncBridge" where
  "resolveRejectedTokenPool sa infl poolID =
     chanSend sa (response infl)
       \<lparr>reply_id = None, reply_data = NoData, reply_err = Some (MsgTokenPoolRejected poolID)\<rparr>"

definition resolveConfirmedTokenTransfer ::
  "syncAsyncBridge \<Rightarrow> inflightRequest \<Rightarrow> TokenTransfer \<Rightarrow> syncAsyncBridge" where
  "resolveConfirmedTokenTransfer sa infl transfer =
     chanSend sa (response infl)
       \<lparr>reply_id = LocalID transfer, reply_data = TokenTransferData transfer,
        reply_err = None\<rparr>"

definition resolveFailedTokenTransfer ::
  "syncAsyncBridge \<Rightarrow> inflightRequest \<Rightarrow> UUID option \<Rightarrow> syncAsyncBridge" where
  "resolveFailedTokenTransfer sa infl transferID =
     chanSend sa (response infl)
       \<lparr>reply_id = None, reply_data = NoData,
        reply_err = Some (MsgTokenTransferFailed transferID)\<rparr>"

text \<open>A started goroutine runs the body of its resolver.\<close>

fun runGoroutine :: "syncAsyncBridge \<Rightarrow> goroutine \<Rightarrow> syncAsyncBridge" where
  "runGoroutine sa (GoResolveReply infl msg) = resolveReply sa infl msg"
| "runGoroutine sa (GoResolveConfirmed infl msg) = resolveConfirmed sa infl msg"
| "runGoroutine sa (GoResolveRejected infl msgID) = resolveRejected sa infl msgID"
| "runGoroutine sa (GoResolveConfirmedTokenPool infl pool) =
     resolveConfirmedTokenPool sa infl pool"
| "runGoroutine sa (GoResolveRejectedTokenPool infl poolID) =
     resolveRejectedTokenPool sa infl poolID"
| "runGoroutine sa (GoResolveConfirmedTokenTransfer infl transfer) =
     resolveConfirmedTokenTransfer sa infl transfer"
| "runGoroutine sa (GoResolveFailedTokenTransfer infl transferID) =
     resolveFailedTokenTransfer sa infl transferID"

text \<open>The scheduler runs the started goroutine at position \<open>n\<close>, if there is one.\<close>

definition schedule :: "syncAsyncBridge \<Rightarrow> nat \<Rightarrow> syncAsyncBridge" where
  "schedule sa n =
     (if n < length (goroutines sa)
      then runGoroutine (sa\<lparr>goroutines := take n (goroutines sa) @ drop (Suc n) (goroutines sa)\<rparr>)
             (goroutines sa ! n)
      else sa)"

section \<open>Waiting\<close>

text \<open>
  The caller's \<^verbatim>\<open>send\<close> callback is any code: a function of the state that returns nil
  or an error, panics, or never returns. Whatever other goroutines do while it runs is
  part of the function.
\<close>

datatype sendResult = SendNil | SendErr error | SendPanics | SendNeverReturns

type_synonym RequestSender = "syncAsyncBridge \<Rightarrow> syncAsyncBridge \<times> sendResult"

text \<open>
  What happens around the \<^verbatim>\<open>select\<close> of a call: \<open>concurrent\<close> is everything the other
  goroutines do from the return of \<^verbatim>\<open>send\<close> until the select is decided, \<open>ctxDone\<close> whether
  \<^verbatim>\<open>ctx.Done()\<close> is closed by then, and \<open>chooseDone\<close> the choice Go makes when both cases
  can proceed.
\<close>

record waiting =
  concurrent :: "syncAsyncBridge \<Rightarrow> syncAsyncBridge"
  ctxDone :: bool
  chooseDone :: bool

datatype selected = CaseDone | CaseReply inflightResponse | SelectBlocks

text \<open>The \<^verbatim>\<open>select\<close> of lines 356-362 on \<^verbatim>\<open>ctx.Done()\<close> and the request's channel.\<close>

definition selectStmt ::
  "syncAsyncBridge \<Rightarrow> waiting \<Rightarrow> chan \<Rightarrow> syncAsyncBridge \<times> selected" where
  "selectStmt sa ctx ch =
     (case chanRecv sa ch of
        None \<Rightarrow> (sa, if ctxDone ctx then CaseDone else SelectBlocks)
      | Some (reply, sa') \<Rightarrow>
          if ctxDone ctx \<and> chooseDone ctx then (sa, CaseDone) else (sa', CaseReply reply))"

datatype 'a outcome = Returns 'a | Panics | NeverReturns

text \<open>
  The deferred function of lines 342-349: it runs when \<^verbatim>\<open>sendAndWait\<close> returns or panics,
  and a panic inside it replaces the result. \<^verbatim>\<open>inflight.id\<close> is the caller's pointer, and
  \<^verbatim>\<open>removeInFlight\<close> dereferences it at this moment (line 144).
\<close>

definition deferred ::
  "syncAsyncBridge \<Rightarrow> string \<Rightarrow> UUIDptr \<Rightarrow> 'a outcome \<Rightarrow> syncAsyncBridge \<times> 'a outcome" where
  "deferred sa ns p out =
     (case removeInFlight sa ns (deref sa p) of
        (sa', Ok _) \<Rightarrow> (sa', out)
      | (sa', _) \<Rightarrow> (sa', Panics))"

text \<open>
  \<^verbatim>\<open>sendAndWait\<close>, lines 335-363. The id is the caller's pointer \<open>p\<close>: it is
  dereferenced at registration (line 122), by the deferred removal (line 144) and for the
  timeout error, each time in the state of that moment.
\<close>

definition sendAndWait ::
  "syncAsyncBridge \<Rightarrow> waiting \<Rightarrow> string \<Rightarrow> UUIDptr \<Rightarrow> requestType \<Rightarrow> RequestSender
     \<Rightarrow> syncAsyncBridge \<times> (payload \<times> error option) outcome" where
  "sendAndWait sa ctx ns p rt send =
     (case addInFlight sa ns (deref sa p) rt of
        (sa1, Err e) \<Rightarrow> (sa1, Returns (NoData, Some e))
      | (sa1, Panic) \<Rightarrow> (sa1, Panics)
      | (sa1, Ok infl) \<Rightarrow>
          (case send sa1 of
             (sa2, SendNeverReturns) \<Rightarrow> (sa2, NeverReturns)
           | (sa2, SendPanics) \<Rightarrow> deferred sa2 ns p Panics
           | (sa2, SendErr e) \<Rightarrow> deferred sa2 ns p (Returns (NoData, Some e))
           | (sa2, SendNil) \<Rightarrow>
               (case selectStmt (concurrent ctx sa2) ctx (response infl) of
                  (sa3, SelectBlocks) \<Rightarrow> (sa3, NeverReturns)
                | (sa3, CaseDone) \<Rightarrow>
                    deferred sa3 ns p
                      (Returns (NoData,
                         Some (MsgRequestTimeout (deref sa3 p) (msInflight sa3 infl))))
                | (sa3, CaseReply reply) \<Rightarrow>
                    deferred sa3 ns p (Returns (reply_data reply, reply_err reply)))))"






section \<open>Runs of the bridge\<close>

text \<open>
  The atomic steps other goroutines take on the bridge: the registry operations, the
  delivery of an event, the run of a started resolver, a waiter's receive on a channel,
  and \<^verbatim>\<open>Init\<close>, which also stands for a change of the event bus's behaviour.
\<close>

datatype action =
    DoInit "SystemEvents option"
  | DoAdd string "UUID option" requestType
  | DoRemove string "UUID option"
  | DoEvent EventDelivery
  | DoSchedule nat
  | DoReceive chan

fun step :: "RetrieveInputs \<Rightarrow> syncAsyncBridge \<Rightarrow> action \<Rightarrow> syncAsyncBridge" where
  "step R sa (DoInit se) = Init sa se"
| "step R sa (DoAdd ns i rt) = fst (addInFlight sa ns i rt)"
| "step R sa (DoRemove ns i) = fst (removeInFlight sa ns i)"
| "step R sa (DoEvent event) = fst (eventCallback R sa event)"
| "step R sa (DoSchedule n) = schedule sa n"
| "step R sa (DoReceive ch) = (case chanRecv sa ch of None \<Rightarrow> sa | Some (v, sa') \<Rightarrow> sa')"

definition run :: "RetrieveInputs \<Rightarrow> syncAsyncBridge \<Rightarrow> action list \<Rightarrow> syncAsyncBridge" where
  "run R sa acts = foldl (step R) sa acts"

text \<open>The calls of \<^verbatim>\<open>AddSystemEventListener\<close> made for one namespace, in order.\<close>

definition callsFor :: "string \<Rightarrow> (string \<times> error option) list \<Rightarrow> (string \<times> error option) list" where
  "callsFor ns calls = filter (\<lambda>c. fst c = ns) calls"

section \<open>Definitions used to state the properties\<close>

text \<open>
  The database lookup the callback makes for an event, by the event's type (lines 209,
  226, 237, 248, 259 and 270 with the \<^verbatim>\<open>get...FromEvent\<close> each calls): whether an
  entity came back, and the error. An event of another type makes no lookup.
\<close>

definition entityLookup :: "database_Plugin \<Rightarrow> EventDelivery \<Rightarrow> (bool \<times> error option) option" where
  "entityLookup db event =
     (case Type event of
        EventTypeMessageConfirmed \<Rightarrow>
          Some (fst (GetMessageByID db (Reference event)) \<noteq> None,
                snd (GetMessageByID db (Reference event)))
      | EventTypeMessageRejected \<Rightarrow>
          Some (fst (GetMessageByID db (Reference event)) \<noteq> None,
                snd (GetMessageByID db (Reference event)))
      | EventTypePoolConfirmed \<Rightarrow>
          Some (fst (GetTokenPoolByID db (Reference event)) \<noteq> None,
                snd (GetTokenPoolByID db (Reference event)))
      | EventTypePoolRejected \<Rightarrow>
          Some (fst (GetTokenPoolByID db (Reference event)) \<noteq> None,
                snd (GetTokenPoolByID db (Reference event)))
      | EventTypeTransferConfirmed \<Rightarrow>
          Some (fst (GetTokenTransfer db (Reference event)) \<noteq> None,
                snd (GetTokenTransfer db (Reference event)))
      | EventTypeTransferOpFailed \<Rightarrow>
          Some (fst (GetOperationByID db (Reference event)) \<noteq> None,
                snd (GetOperationByID db (Reference event)))
      | EventTypeOther _ \<Rightarrow> None)"

text \<open>
  The invariant behind listener registration: a namespace without a row has seen only
  failed attach calls; a namespace with a row has seen failed calls followed by exactly
  one successful call, its last.
\<close>

definition listenerInv :: "syncAsyncBridge \<Rightarrow> bool" where
  "listenerInv sa \<longleftrightarrow>
     (\<forall>ns. (inflight sa ns = None \<longrightarrow>
              (\<forall>c \<in> set (callsFor ns (listenerCalls sa)). snd c \<noteq> None)) \<and>
           (inflight sa ns \<noteq> None \<longrightarrow>
              (\<exists>pre. callsFor ns (listenerCalls sa) = pre @ [(ns, None)]
                   \<and> (\<forall>c \<in> set pre. snd c \<noteq> None))))"

subsection \<open>A concrete bridge\<close>

text \<open>
  A database that finds every message (with correlation id 2) and every operation, finds
  no token pool and fails on token transfers; a data manager that always succeeds; an
  event bus that accepts every listener; a decoder of transfer inputs that always fails.
\<close>

definition exDatabase :: database_Plugin where
  "exDatabase =
     \<lparr>GetMessageByID = (\<lambda>i. (Some \<lparr>Header_ID = i, Header_CID = Some 2\<rparr>, None)),
      GetTokenPoolByID = (\<lambda>i. (None, None)),
      GetTokenTransfer = (\<lambda>i. (None, Some (PluginError ''database closed''))),
      GetOperationByID = (\<lambda>i. (Some \<lparr>Op_ID = i, Input = ''{}''\<rparr>, None))\<rparr>"

definition exData :: data_Manager where
  "exData = \<lparr>GetMessageData = (\<lambda>m. ([''payload''], None))\<rparr>"

definition exRetrieve :: RetrieveInputs where
  "exRetrieve op transfer = (transfer, Some (PluginError ''no id in the inputs''))"

definition exBridge :: syncAsyncBridge where
  "exBridge = Init (NewSyncAsyncBridge exDatabase exData) (Some (\<lambda>ns. None))"

definition exEvent :: "EventType \<Rightarrow> UUID option \<Rightarrow> EventDelivery" where
  "exEvent t r = \<lparr>Event_ID = Some 99, Type = t, Namespace = ''ns1'', Reference = r\<rparr>"

text \<open>The bridge after one registration, and after a second one in the same namespace.\<close>

definition exOne :: syncAsyncBridge where
  "exOne = fst (addInFlight exBridge ''ns1'' (Some 1) messageConfirm)"

definition exTwo :: syncAsyncBridge where
  "exTwo = fst (addInFlight exOne ''ns1'' (Some 2) messageReply)"

text \<open>
  A \<^verbatim>\<open>send\<close> callback during which a confirmation and a rejection of message 1 are both
  delivered and both resolvers run; a caller that then waits without a deadline; and
  a caller whose context is already cancelled.
\<close>

definition exSendTwice :: RequestSender where
  "exSendTwice sa =
     (run exRetrieve sa
        [DoEvent (exEvent EventTypeMessageConfirmed (Some 1)),
         DoEvent (exEvent EventTypeMessageRejected (Some 1)),
         DoSchedule 0, DoSchedule 0], SendNil)"

definition exPatient :: waiting where
  "exPatient = \<lparr>concurrent = (\<lambda>sa. sa), ctxDone = False, chooseDone = False\<rparr>"


text \<open>
  Callers: one that holds UUID 1 at address 0 and calls the fresh bridge, and one that
  holds UUID 5 at address 0 and calls the bridge that has requests 1 and 2 registered.
\<close>

definition exFirstCaller :: syncAsyncBridge where
  "exFirstCaller = exBridge\<lparr>uuids := (uuids exBridge)(0 := 1)\<rparr>"




text \<open>The bridge with requests 1 and 2 registered and a data manager that fails.\<close>

definition exTwoNoData :: syncAsyncBridge where
  "exTwoNoData =
     exTwo\<lparr>data := \<lparr>GetMessageData = (\<lambda>m. ([], Some (PluginError ''data missing'')))\<rparr>\<rparr>"

section \<open>Facts about the registry\<close>

lemma getInFlight_None_id: "getInFlight sa ns rt None = None"
  by (simp add: getInFlight_def split: option.splits)

lemma getInFlight_kind: "getInFlight sa ns rt i = Some infl \<Longrightarrow> reqType infl = rt"
  by (auto simp: getInFlight_def split: option.splits if_splits)

lemma getInFlight_lenZero: "getInFlight sa ns rt i = Some infl \<Longrightarrow> \<not> lenZero (inflight sa ns)"
  by (auto simp: lenZero_def getInFlight_def split: option.splits)

lemma lenZero_iff: "lenZero (inflight sa ns) \<longleftrightarrow> (\<forall>rt i. getInFlight sa ns rt i = None)"
  by (auto simp: lenZero_def getInFlight_def split: option.splits)

lemma getInFlight_frame [simp]:
  "getInFlight (sa\<lparr>goroutines := g\<rparr>) ns rt i = getInFlight sa ns rt i"
  "getInFlight (sa\<lparr>dbReads := d\<rparr>) ns rt i = getInFlight sa ns rt i"
  by (simp_all add: getInFlight_def)



lemma addInFlight_Ok_response:
  "snd (addInFlight sa ns i rt) = Ok infl \<Longrightarrow> response infl = Chan (nextChan sa) 0"
  by (auto simp: addInFlight_def Let_def split: option.splits)

lemma addInFlight_Ok_kind:
  "snd (addInFlight sa ns i rt) = Ok infl \<Longrightarrow>
   snd (addInFlight sa ns i rt') = Ok (infl\<lparr>reqType := rt'\<rparr>)"
  by (auto simp: addInFlight_def Let_def split: option.splits)

lemma addInFlight_listenerCalls:
  "listenerCalls (fst (addInFlight sa ns i rt)) =
     (if inflight sa ns = None
      then (case sysevents sa of None \<Rightarrow> listenerCalls sa
            | Some se \<Rightarrow> listenerCalls sa @ [(ns, se ns)])
      else listenerCalls sa)"
  by (auto simp: addInFlight_def Let_def split: option.splits)

lemma addInFlight_row:
  "(inflight (fst (addInFlight sa ns i rt)) ns' = None) =
     (inflight sa ns' = None \<and> \<not> (ns' = ns \<and> (\<exists>se. sysevents sa = Some se \<and> se ns = None)))"
  by (auto simp: addInFlight_def Let_def split: option.splits)

lemma addInFlight_blockedSends:
  "blockedSends (fst (addInFlight sa ns i rt)) = blockedSends sa"
  by (auto simp: addInFlight_def Let_def split: option.splits)

lemma removeInFlight_frame:
  "listenerCalls (fst (removeInFlight sa ns i)) = listenerCalls sa"
  "(inflight (fst (removeInFlight sa ns i)) ns' = None) = (inflight sa ns' = None)"
  "blockedSends (fst (removeInFlight sa ns i)) = blockedSends sa"
  by (auto simp: removeInFlight_def split: option.splits)

section \<open>Facts about the callback, the resolvers and the channels\<close>

lemmas get_defs = getMessageFromEvent_def getPoolFromEvent_def getTransferFromEvent_def
  getOperationFromEvent_def

lemmas resolve_defs = resolveReply_def resolveConfirmed_def resolveRejected_def
  resolveConfirmedTokenPool_def resolveRejectedTokenPool_def
  resolveConfirmedTokenTransfer_def resolveFailedTokenTransfer_def

lemma goIfFound_frame [simp]:
  "listenerCalls (goIfFound sa f r) = listenerCalls sa"
  "inflight (goIfFound sa f r) = inflight sa"
  "blockedSends (goIfFound sa f r) = blockedSends sa"
  "chanBuf (goIfFound sa f r) = chanBuf sa"
  "dbReads (goIfFound sa f r) = dbReads sa"
  "getInFlight (goIfFound sa f r) ns rt i = getInFlight sa ns rt i"
  by (simp_all add: goIfFound_def getInFlight_def split: option.splits)

lemma eventCallback_frame:
  "listenerCalls (fst (eventCallback R sa event)) = listenerCalls sa"
  "inflight (fst (eventCallback R sa event)) = inflight sa"
  "blockedSends (fst (eventCallback R sa event)) = blockedSends sa"
  "chanBuf (fst (eventCallback R sa event)) = chanBuf sa"
  by (auto simp: eventCallback_def get_defs Let_def split_beta
           split: EventType.splits option.splits)

lemma eventCallback_MessageConfirmed:
  assumes "\<not> lenZero (inflight sa (Namespace event))"
    and "Type event = EventTypeMessageConfirmed"
    and "GetMessageByID (database sa) (Reference event) = (Some msg, None)"
  shows "eventCallback R sa event =
    (sa\<lparr>dbReads := dbReads sa @ [ReadMessage (Reference event)],
        goroutines := goroutines sa
          @ (case getInFlight sa (Namespace event) messageReply (Header_CID msg) of
               None \<Rightarrow> [] | Some i \<Rightarrow> [GoResolveReply i msg])
          @ (case getInFlight sa (Namespace event) messageConfirm (Header_ID msg) of
               None \<Rightarrow> [] | Some i \<Rightarrow> [GoResolveConfirmed i msg])\<rparr>, None)"
  using assms
  by (simp add: eventCallback_def getMessageFromEvent_def Let_def goIfFound_def
           split: option.splits)

lemma chanSend_frame [simp]:
  "listenerCalls (chanSend sa ch v) = listenerCalls sa"
  "inflight (chanSend sa ch v) = inflight sa"
  by (simp_all add: chanSend_def)

lemma chanSend_unbuffered:
  "chanCap ch = 0 \<Longrightarrow> chanSend sa ch v = sa\<lparr>blockedSends := blockedSends sa @ [(ch, v)]\<rparr>"
  by (simp add: chanSend_def)

lemma chanSend_keeps: "set (blockedSends sa) \<subseteq> set (blockedSends (chanSend sa ch v))"
  by (auto simp: chanSend_def)

lemma runGoroutine_frame [simp]:
  "listenerCalls (runGoroutine sa g) = listenerCalls sa"
  "inflight (runGoroutine sa g) = inflight sa"
  by (cases g; simp add: resolve_defs split_beta Let_def)+

lemma runGoroutine_keeps: "set (blockedSends sa) \<subseteq> set (blockedSends (runGoroutine sa g))"
proof (cases g)
  case (GoResolveReply infl msg)
  have "set (blockedSends (sa\<lparr>dbReads := d\<rparr>)) \<subseteq> set (blockedSends (chanSend (sa\<lparr>dbReads := d\<rparr>) ch v))"
    for d ch v by (rule chanSend_keeps)
  then show ?thesis
    unfolding GoResolveReply by (auto simp: resolveReply_def split_beta Let_def)
qed (simp_all add: resolve_defs chanSend_keeps)

lemma schedule_frame:
  "listenerCalls (schedule sa n) = listenerCalls sa"
  "inflight (schedule sa n) = inflight sa"
  by (simp_all add: schedule_def)

lemma schedule_keeps: "set (blockedSends sa) \<subseteq> set (blockedSends (schedule sa n))"
  using runGoroutine_keeps
    [of "sa\<lparr>goroutines := take n (goroutines sa) @ drop (Suc n) (goroutines sa)\<rparr>"
        "goroutines sa ! n"]
  by (simp add: schedule_def)

lemma takeSender_remove1:
  "takeSender ch l = Some (w, rest) \<Longrightarrow> rest = remove1 (ch, w) l"
  by (induction l arbitrary: rest) (auto split: if_splits)

lemma takeSender_other:
  "takeSender ch' l = Some (w, rest) \<Longrightarrow> ch' \<noteq> ch \<Longrightarrow> (ch, v) \<in> set l \<Longrightarrow> (ch, v) \<in> set rest"
  by (induction l arbitrary: rest) (auto split: if_splits)

lemma chanRecv_frame:
  "chanRecv sa ch = Some (v, sa') \<Longrightarrow>
   listenerCalls sa' = listenerCalls sa \<and> inflight sa' = inflight sa"
  by (auto simp: chanRecv_def split: list.splits option.splits)

lemma chanRecv_other:
  "chanRecv sa ch' = Some (w, sa') \<Longrightarrow> ch' \<noteq> ch \<Longrightarrow> (ch, v) \<in> set (blockedSends sa)
   \<Longrightarrow> (ch, v) \<in> set (blockedSends sa')"
  by (auto simp: chanRecv_def split: list.splits option.splits dest: takeSender_other)

lemma chanRecv_takes_one:
  "chanRecv sa ch = Some (w, sa') \<Longrightarrow>
   (\<exists>u. blockedSends sa' = remove1 (ch, u) (blockedSends sa)) \<or> blockedSends sa' = blockedSends sa"
  by (auto simp: chanRecv_def split: list.splits option.splits dest!: takeSender_remove1)

lemma selectStmt_takes_one:
  "(\<exists>u. blockedSends (fst (selectStmt sa ctx ch)) = remove1 (ch, u) (blockedSends sa))
   \<or> blockedSends (fst (selectStmt sa ctx ch)) = blockedSends sa"
proof (cases "chanRecv sa ch")
  case None
  then show ?thesis by (simp add: selectStmt_def)
next
  case (Some r)
  obtain w sa' where r: "r = (w, sa')" by (cases r)
  from chanRecv_takes_one[of sa ch w sa'] Some r show ?thesis
    by (auto simp: selectStmt_def)
qed

lemma step_keeps:
  assumes "a \<noteq> DoReceive ch" and "(ch, v) \<in> set (blockedSends sa)"
  shows "(ch, v) \<in> set (blockedSends (step R sa a))"
proof (cases a)
  case (DoInit se)
  with assms show ?thesis by (simp add: Init_def)
next
  case (DoAdd ns i rt)
  with assms show ?thesis by (simp add: addInFlight_blockedSends)
next
  case (DoRemove ns i)
  with assms show ?thesis by (simp add: removeInFlight_frame)
next
  case (DoEvent e)
  with assms show ?thesis by (simp add: eventCallback_frame)
next
  case (DoSchedule n)
  with assms schedule_keeps[of sa n] show ?thesis by auto
next
  case (DoReceive ch')
  with assms have "ch' \<noteq> ch" by simp
  with assms(2) show ?thesis unfolding DoReceive
    by (auto split: option.splits dest: chanRecv_other)
qed

lemma run_keeps:
  "DoReceive ch \<notin> set acts \<Longrightarrow> (ch, v) \<in> set (blockedSends sa)
   \<Longrightarrow> (ch, v) \<in> set (blockedSends (run R sa acts))"
  unfolding run_def by (induction acts arbitrary: sa) (auto simp: step_keeps)

section \<open>Facts about waiting\<close>

lemma deref_nil [simp]: "deref sa None = None"
  by (simp add: deref_def)

lemma deref_Some [simp]: "deref sa (Some a) = Some (uuids sa a)"
  by (simp add: deref_def)


lemma removeInFlight_uuids: "uuids (fst (removeInFlight sa ns i)) = uuids sa"
  by (auto simp: removeInFlight_def split: option.splits)








section \<open>Facts about listener registration\<close>

lemma callsFor_append [simp]: "callsFor ns (xs @ ys) = callsFor ns xs @ callsFor ns ys"
  by (simp add: callsFor_def)

lemma callsFor_single [simp]: "callsFor ns [(ns', r)] = (if ns' = ns then [(ns', r)] else [])"
  by (simp add: callsFor_def)

lemma listenerInv_frame:
  assumes "listenerInv sa" and "listenerCalls sa' = listenerCalls sa"
    and "\<And>ns. (inflight sa' ns = None) = (inflight sa ns = None)"
  shows "listenerInv sa'"
  using assms unfolding listenerInv_def by presburger

lemma listenerInv_add:
  assumes inv: "listenerInv sa"
  shows "listenerInv (fst (addInFlight sa ns i rt))"
  unfolding listenerInv_def
proof (intro allI conjI impI)
  fix ns'
  assume n: "inflight (fst (addInFlight sa ns i rt)) ns' = None"
  then have old: "inflight sa ns' = None"
    and ok: "\<not> (ns' = ns \<and> (\<exists>se. sysevents sa = Some se \<and> se ns = None))"
    by (simp_all add: addInFlight_row)
  from inv old have "\<forall>c \<in> set (callsFor ns' (listenerCalls sa)). snd c \<noteq> None"
    by (simp add: listenerInv_def)
  with ok show
    "\<forall>c \<in> set (callsFor ns' (listenerCalls (fst (addInFlight sa ns i rt)))). snd c \<noteq> None"
    by (auto simp: addInFlight_listenerCalls split: option.splits)
next
  fix ns'
  assume n: "inflight (fst (addInFlight sa ns i rt)) ns' \<noteq> None"
  show "\<exists>pre. callsFor ns' (listenerCalls (fst (addInFlight sa ns i rt))) = pre @ [(ns', None)]
           \<and> (\<forall>c \<in> set pre. snd c \<noteq> None)"
  proof (cases "inflight sa ns' = None")
    case True
    with n obtain se where se: "ns' = ns" "sysevents sa = Some se" "se ns = None"
      by (auto simp: addInFlight_row)
    from inv True have "\<forall>c \<in> set (callsFor ns' (listenerCalls sa)). snd c \<noteq> None"
      by (simp add: listenerInv_def)
    with True se show ?thesis
      by (simp add: addInFlight_listenerCalls)
  next
    case False
    with inv obtain pre where p: "callsFor ns' (listenerCalls sa) = pre @ [(ns', None)]"
        "\<forall>c \<in> set pre. snd c \<noteq> None"
      unfolding listenerInv_def by blast
    have "callsFor ns' (listenerCalls (fst (addInFlight sa ns i rt)))
            = callsFor ns' (listenerCalls sa)"
      using False by (auto simp: addInFlight_listenerCalls split: option.splits)
    with p show ?thesis by auto
  qed
qed

lemma listenerInv_step: "listenerInv sa \<Longrightarrow> listenerInv (step R sa a)"
proof (cases a)
  case (DoInit se)
  assume "listenerInv sa"
  then show ?thesis unfolding DoInit step.simps
    by (rule listenerInv_frame) (simp_all add: Init_def)
next
  case (DoAdd ns i rt)
  assume "listenerInv sa"
  then show ?thesis unfolding DoAdd step.simps by (rule listenerInv_add)
next
  case (DoRemove ns i)
  assume "listenerInv sa"
  then show ?thesis unfolding DoRemove step.simps
    by (rule listenerInv_frame) (simp_all add: removeInFlight_frame)
next
  case (DoEvent e)
  assume "listenerInv sa"
  then show ?thesis unfolding DoEvent step.simps
    by (rule listenerInv_frame) (simp_all add: eventCallback_frame)
next
  case (DoSchedule n)
  assume "listenerInv sa"
  then show ?thesis unfolding DoSchedule step.simps
    by (rule listenerInv_frame) (simp_all add: schedule_frame)
next
  case (DoReceive ch)
  assume "listenerInv sa"
  then show ?thesis unfolding DoReceive step.simps
    by (rule listenerInv_frame) (auto dest!: chanRecv_frame split: option.splits)
qed

lemma listenerInv_run: "listenerInv sa \<Longrightarrow> listenerInv (run R sa acts)"
  unfolding run_def by (induction acts arbitrary: sa) (simp_all add: listenerInv_step)

lemma listenerInv_New: "listenerInv (NewSyncAsyncBridge di dm)"
  by (simp add: listenerInv_def NewSyncAsyncBridge_def callsFor_def)

lemma listenerInv_no_call:
  assumes "listenerInv sa" and "callsFor ns (listenerCalls sa) = []"
  shows "inflight sa ns = None"
proof (rule ccontr)
  assume "inflight sa ns \<noteq> None"
  with assms(1) obtain pre where "callsFor ns (listenerCalls sa) = pre @ [(ns, None)]"
    unfolding listenerInv_def by blast
  with assms(2) show False by simp
qed

lemma run_append: "run R sa (xs @ ys) = run R (run R sa xs) ys"
  by (simp add: run_def)

lemma run_Cons: "run R sa (a # acts) = run R (step R sa a) acts"
  by (simp add: run_def)

text \<open>Once a namespace has its row, no step removes the row or calls the bus for it.\<close>

lemma step_row_keeps:
  assumes "inflight sa ns \<noteq> None"
  shows "inflight (step R sa a) ns \<noteq> None
       \<and> callsFor ns (listenerCalls (step R sa a)) = callsFor ns (listenerCalls sa)"
proof (cases a)
  case (DoInit se)
  with assms show ?thesis by (simp add: Init_def)
next
  case (DoAdd ns' i rt)
  have "inflight (fst (addInFlight sa ns' i rt)) ns \<noteq> None"
    using assms by (simp add: addInFlight_row)
  moreover have "callsFor ns (listenerCalls (fst (addInFlight sa ns' i rt)))
                   = callsFor ns (listenerCalls sa)"
    using assms by (auto simp: addInFlight_listenerCalls split: option.splits)
  ultimately show ?thesis unfolding DoAdd by simp
next
  case (DoRemove ns' i)
  with assms show ?thesis by (simp add: removeInFlight_frame)
next
  case (DoEvent e)
  with assms show ?thesis by (simp add: eventCallback_frame)
next
  case (DoSchedule n)
  with assms show ?thesis by (simp add: schedule_frame)
next
  case (DoReceive ch)
  with assms show ?thesis by (auto split: option.splits dest!: chanRecv_frame)
qed

lemma run_row_keeps:
  "inflight sa ns \<noteq> None \<Longrightarrow>
   callsFor ns (listenerCalls (run R sa acts)) = callsFor ns (listenerCalls sa)"
proof (induction acts arbitrary: sa)
  case Nil
  then show ?case by (simp add: run_def)
next
  case (Cons a acts)
  from step_row_keeps[OF Cons.prems, of R a] Cons.IH[of "step R sa a"]
  show ?case by (simp add: run_Cons)
qed

section \<open>Facts about the concrete bridge\<close>

lemmas ex_defs = exBridge_def Init_def NewSyncAsyncBridge_def exDatabase_def exData_def
  exEvent_def exRetrieve_def

lemma exOne_add:
  "snd (addInFlight exBridge ''ns1'' (Some 1) messageConfirm) =
     Ok \<lparr>inflight_id = Some 1, startTime = 0, response = Chan 0 0, reqType = messageConfirm\<rparr>"
  by (simp add: ex_defs addInFlight_def Let_def)

lemma exOne_inflight:
  "inflight exOne ''ns1'' =
     Some [1 \<mapsto> \<lparr>inflight_id = Some 1, startTime = 0, response = Chan 0 0,
                  reqType = messageConfirm\<rparr>]"
  by (simp add: exOne_def ex_defs addInFlight_def Let_def)

lemma exOne_fields:
  "nextChan exOne = 1" "clock exOne = 0" "sysevents exOne = Some (\<lambda>ns. None)"
  "listenerCalls exOne = [(''ns1'', None)]" "goroutines exOne = []" "blockedSends exOne = []"
  "dbReads exOne = []" "chanBuf exOne = (\<lambda>_. [])" "database exOne = exDatabase"
  "data exOne = exData"
  by (simp_all add: exOne_def ex_defs addInFlight_def Let_def)

lemma exTwo_inflight:
  "inflight exTwo ''ns1'' =
     Some [1 \<mapsto> \<lparr>inflight_id = Some 1, startTime = 0, response = Chan 0 0,
                  reqType = messageConfirm\<rparr>,
           2 \<mapsto> \<lparr>inflight_id = Some 2, startTime = 0, response = Chan 1 0,
                  reqType = messageReply\<rparr>]"
  by (simp add: exTwo_def addInFlight_def Let_def exOne_inflight exOne_fields)

lemma exTwo_fields:
  "goroutines exTwo = []" "dbReads exTwo = []" "database exTwo = exDatabase"
  "data exTwo = exData" "blockedSends exTwo = []" "chanBuf exTwo = (\<lambda>_. [])"
  by (simp_all add: exTwo_def addInFlight_def Let_def exOne_inflight exOne_fields)

lemma exFirstCaller_add:
  "snd (addInFlight exFirstCaller ''ns1'' (deref exFirstCaller (Some 0)) messageConfirm) =
     Ok \<lparr>inflight_id = Some 1, startTime = 0, response = Chan 0 0, reqType = messageConfirm\<rparr>"
  by (simp add: exFirstCaller_def ex_defs addInFlight_def Let_def)



section \<open>The claims\<close>

text \<open>
  C1 (corrected). The claim: \<^verbatim>\<open>addInFlight\<close> with an id that is already registered in the
  namespace returns a "duplicate inflight" error and leaves the registered entry as it is.
  The code has no such check: line 122 stores the new request under the id whatever the
  row holds. Here the message-confirm request registered under id 1 is replaced by a
  message-reply request, and the call returns that request, not an error.
\<close>

theorem addInFlight_duplicate_counterexample:
  "getInFlight exOne ''ns1'' messageConfirm (Some 1) =
     Some \<lparr>inflight_id = Some 1, startTime = 0, response = Chan 0 0, reqType = messageConfirm\<rparr>
   \<and> snd (addInFlight exOne ''ns1'' (Some 1) messageReply) =
     Ok \<lparr>inflight_id = Some 1, startTime = 0, response = Chan 1 0, reqType = messageReply\<rparr>
   \<and> getInFlight (fst (addInFlight exOne ''ns1'' (Some 1) messageReply)) ''ns1''
       messageConfirm (Some 1) = None
   \<and> getInFlight (fst (addInFlight exOne ''ns1'' (Some 1) messageReply)) ''ns1''
       messageReply (Some 1) =
     Some \<lparr>inflight_id = Some 1, startTime = 0, response = Chan 1 0, reqType = messageReply\<rparr>"
  by (simp add: getInFlight_def addInFlight_def Let_def exOne_inflight exOne_fields)

text \<open>
  C1 as amended: when an inflight with the same id is already registered in the
  namespace, \<^verbatim>\<open>addInFlight\<close> returns no error; it returns a new request (a fresh channel)
  and stores it under the id in place of the registered entry. No listener is attached
  and nothing else in the table changes.
\<close>

theorem addInFlight_duplicate_replaces:
  assumes "inflight sa ns = Some row" and "row k = Some old"
  shows "addInFlight sa ns (Some k) rt =
     (sa\<lparr>nextChan := Suc (nextChan sa),
         inflight := (inflight sa)(ns \<mapsto> row(k \<mapsto>
            \<lparr>inflight_id = Some k, startTime = clock sa, response = Chan (nextChan sa) 0,
             reqType = rt\<rparr>))\<rparr>,
      Ok \<lparr>inflight_id = Some k, startTime = clock sa, response = Chan (nextChan sa) 0,
          reqType = rt\<rparr>)"
  using assms by (simp add: addInFlight_def Let_def)

theorem addInFlight_duplicate_replaces_witness:
  "inflight exOne ''ns1'' =
     Some [1 \<mapsto> \<lparr>inflight_id = Some 1, startTime = 0, response = Chan 0 0,
                  reqType = messageConfirm\<rparr>]
   \<and> snd (addInFlight exOne ''ns1'' (Some 1) messageReply) =
     Ok \<lparr>inflight_id = Some 1, startTime = 0, response = Chan 1 0, reqType = messageReply\<rparr>"
proof -
  let ?old = "\<lparr>inflight_id = Some (1::UUID), startTime = 0, response = Chan 0 0,
               reqType = messageConfirm\<rparr>"
  have row: "inflight exOne ''ns1'' = Some [1 \<mapsto> ?old]" by (rule exOne_inflight)
  have old: "[1 \<mapsto> ?old] 1 = Some ?old" by simp
  from addInFlight_duplicate_replaces[OF row old, of messageReply] row
  show ?thesis by (simp add: exOne_fields)
qed

text \<open>
  C6 (confirmed). \<^verbatim>\<open>getInFlight(ns, K1, id)\<close> does not return a request that is stored under
  the id with another kind: the cross-kind lookup returns none, and only the lookup with
  the stored kind returns the request.
\<close>

theorem getInFlight_kind_discrimination:
  assumes "inflight sa ns = Some row" and "row j = Some infl" and "reqType infl \<noteq> k1"
  shows "getInFlight sa ns k1 (Some j) = None
       \<and> getInFlight sa ns (reqType infl) (Some j) = Some infl"
  using assms by (simp add: getInFlight_def)

theorem getInFlight_kind_discrimination_witness:
  "getInFlight exOne ''ns1'' messageReply (Some 1) = None
   \<and> getInFlight exOne ''ns1'' messageConfirm (Some 1) =
     Some \<lparr>inflight_id = Some 1, startTime = 0, response = Chan 0 0, reqType = messageConfirm\<rparr>"
proof -
  let ?infl = "\<lparr>inflight_id = Some (1::UUID), startTime = 0, response = Chan 0 0,
                reqType = messageConfirm\<rparr>"
  have row: "inflight exOne ''ns1'' = Some [1 \<mapsto> ?infl]" by (rule exOne_inflight)
  have e: "[1 \<mapsto> ?infl] 1 = Some ?infl" by simp
  have k: "reqType ?infl \<noteq> messageReply" by simp
  from getInFlight_kind_discrimination[OF row e k] show ?thesis by simp
qed

text \<open>
  C7 (confirmed). When the namespace has no row and attaching the listener fails,
  \<^verbatim>\<open>addInFlight\<close> returns that error and the table is unchanged (only the channel counter
  and the record of the call differ); the namespace still has no row, so the next
  \<^verbatim>\<open>addInFlight\<close> in it calls \<^verbatim>\<open>AddSystemEventListener\<close> again, whatever the bus then answers.
\<close>

theorem addInFlight_attach_failure:
  assumes "inflight sa ns = None" and "sysevents sa = Some se" and "se ns = Some e"
  shows "addInFlight sa ns i rt =
           (sa\<lparr>nextChan := Suc (nextChan sa),
               listenerCalls := listenerCalls sa @ [(ns, Some e)]\<rparr>, Err e)
       \<and> inflight (fst (addInFlight sa ns i rt)) = inflight sa
       \<and> listenerCalls (fst (addInFlight (Init (fst (addInFlight sa ns i rt)) (Some se')) ns i' rt'))
           = listenerCalls sa @ [(ns, Some e), (ns, se' ns)]"
  using assms by (simp add: addInFlight_def Let_def Init_def split: option.splits)

theorem addInFlight_attach_failure_witness:
  "snd (addInFlight (Init exBridge (Some (\<lambda>ns. Some (PluginError ''bus closed''))))
          ''ns1'' (Some 1) messageConfirm) = Err (PluginError ''bus closed'')
   \<and> inflight (fst (addInFlight (Init exBridge (Some (\<lambda>ns. Some (PluginError ''bus closed''))))
          ''ns1'' (Some 1) messageConfirm)) ''ns1'' = None"
proof -
  let ?sa = "Init exBridge (Some (\<lambda>ns. Some (PluginError ''bus closed'')))"
  have a: "inflight ?sa ''ns1'' = None" by (simp add: ex_defs)
  have b: "sysevents ?sa = Some (\<lambda>ns. Some (PluginError ''bus closed''))" by (simp add: ex_defs)
  have c: "(\<lambda>ns::string. Some (PluginError ''bus closed'')) ''ns1'' = Some (PluginError ''bus closed'')"
    by simp
  from addInFlight_attach_failure[OF a b c, of "Some 1" messageConfirm] a
  show ?thesis by simp
qed

text \<open>
  C9 (confirmed). When the event's namespace has no registered inflight (no row, or an
  empty row), the callback returns nil and leaves the whole state as it was; in
  particular it reads nothing from the database.
\<close>

theorem eventCallback_fast_path:
  assumes "\<forall>rt i. getInFlight sa (Namespace event) rt i = None"
  shows "eventCallback R sa event = (sa, None)
       \<and> dbReads (fst (eventCallback R sa event)) = dbReads sa"
  using assms lenZero_iff[of sa "Namespace event"] by (simp add: eventCallback_def)

theorem eventCallback_fast_path_witness:
  "(\<forall>rt i. getInFlight (fst (removeInFlight exOne ''ns1'' (Some 1))) ''ns1'' rt i = None)
   \<and> snd (eventCallback exRetrieve (fst (removeInFlight exOne ''ns1'' (Some 1)))
            (exEvent EventTypeMessageConfirmed (Some 1))) = None
   \<and> dbReads (fst (eventCallback exRetrieve (fst (removeInFlight exOne ''ns1'' (Some 1)))
            (exEvent EventTypeMessageConfirmed (Some 1)))) = []"
proof -
  let ?sa = "fst (removeInFlight exOne ''ns1'' (Some 1))"
  have e: "\<forall>rt i. getInFlight ?sa (Namespace (exEvent EventTypeMessageConfirmed (Some 1))) rt i = None"
    by (simp add: getInFlight_def removeInFlight_def exOne_inflight exEvent_def
             split: option.splits)
  have d: "dbReads ?sa = []" by (simp add: removeInFlight_def exOne_inflight exOne_fields)
  from eventCallback_fast_path[OF e, of exRetrieve] e d
  show ?thesis by (simp add: exEvent_def)
qed

text \<open>
  C10 (confirmed). \<^verbatim>\<open>getInFlight\<close> with a nil id returns none, for every namespace and
  kind. So a transfer-op-failed event whose operation is found but whose transfer
  inputs leave \<^verbatim>\<open>LocalID\<close> nil starts no resolver, sends nothing, and the callback
  returns nil.
\<close>

theorem getInFlight_nil_id:
  assumes "Type event = EventTypeTransferOpFailed"
    and "GetOperationByID (database sa) (Reference event) = (Some op, None)"
    and "R op \<lparr>LocalID = None\<rparr> = (transfer, err)" and "LocalID transfer = None"
  shows "getInFlight sa' ns rt None = None
       \<and> snd (eventCallback R sa event) = None
       \<and> goroutines (fst (eventCallback R sa event)) = goroutines sa
       \<and> blockedSends (fst (eventCallback R sa event)) = blockedSends sa"
  using assms
  by (simp add: eventCallback_def getOperationFromEvent_def getInFlight_None_id goIfFound_def
        Let_def)

theorem getInFlight_nil_id_witness:
  "getInFlight exOne ''ns1'' messageConfirm None = None
   \<and> \<not> lenZero (inflight exOne ''ns1'')
   \<and> snd (eventCallback exRetrieve exOne (exEvent EventTypeTransferOpFailed (Some 7))) = None
   \<and> goroutines (fst (eventCallback exRetrieve exOne
        (exEvent EventTypeTransferOpFailed (Some 7)))) = []"
proof -
  let ?ev = "exEvent EventTypeTransferOpFailed (Some 7)"
  have t: "Type ?ev = EventTypeTransferOpFailed" by (simp add: exEvent_def)
  have g: "GetOperationByID (database exOne) (Reference ?ev)
             = (Some \<lparr>Op_ID = Some 7, Input = ''{}''\<rparr>, None)"
    by (simp add: exOne_fields exDatabase_def exEvent_def)
  have r: "exRetrieve \<lparr>Op_ID = Some 7, Input = ''{}''\<rparr> \<lparr>LocalID = None\<rparr>
             = (\<lparr>LocalID = None\<rparr>, Some (PluginError ''no id in the inputs''))"
    by (simp add: exRetrieve_def)
  have l: "LocalID \<lparr>LocalID = None\<rparr> = None" by simp
  have z: "\<not> lenZero (inflight exOne ''ns1'')" by (simp add: exOne_inflight lenZero_def)
  from getInFlight_nil_id[where R = exRetrieve and sa' = exOne and ns = "''ns1''"
         and rt = messageConfirm, OF t g r l] z
  show ?thesis by (simp add: exOne_fields)
qed

text \<open>
  C8 (confirmed). For an event of one of the six types, delivered while its namespace has
  a registered inflight: when the database lookup returns an error, the callback returns
  that error, and when it returns no error and no entity, the callback returns nil. In
  both cases no resolver is started and nothing is sent.
\<close>

theorem eventCallback_lookup_failure:
  assumes "getInFlight sa (Namespace event) rt i = Some infl"
    and "entityLookup (database sa) event = Some (found, err)"
    and "err \<noteq> None \<or> \<not> found"
  shows "snd (eventCallback R sa event) = err
       \<and> goroutines (fst (eventCallback R sa event)) = goroutines sa
       \<and> blockedSends (fst (eventCallback R sa event)) = blockedSends sa"
  using getInFlight_lenZero[OF assms(1)] assms(2,3)
  by (cases "Type event")
     (auto simp: eventCallback_def entityLookup_def get_defs split_beta Let_def)

theorem eventCallback_lookup_failure_witness:
  "getInFlight exOne ''ns1'' messageConfirm (Some 1) \<noteq> None
   \<and> entityLookup exDatabase (exEvent EventTypePoolConfirmed (Some 1)) = Some (False, None)
   \<and> snd (eventCallback exRetrieve exOne (exEvent EventTypePoolConfirmed (Some 1))) = None
   \<and> goroutines (fst (eventCallback exRetrieve exOne
        (exEvent EventTypePoolConfirmed (Some 1)))) = []
   \<and> entityLookup exDatabase (exEvent EventTypeTransferConfirmed (Some 1))
        = Some (False, Some (PluginError ''database closed''))
   \<and> snd (eventCallback exRetrieve exOne (exEvent EventTypeTransferConfirmed (Some 1)))
        = Some (PluginError ''database closed'')
   \<and> goroutines (fst (eventCallback exRetrieve exOne
        (exEvent EventTypeTransferConfirmed (Some 1)))) = []"
proof -
  let ?infl = "\<lparr>inflight_id = Some (1::UUID), startTime = 0, response = Chan 0 0,
                reqType = messageConfirm\<rparr>"
  let ?pool = "exEvent EventTypePoolConfirmed (Some 1)"
  let ?transfer = "exEvent EventTypeTransferConfirmed (Some 1)"
  have g: "getInFlight exOne ''ns1'' messageConfirm (Some 1) = Some ?infl"
    by (simp add: getInFlight_def exOne_inflight)
  have gp: "getInFlight exOne (Namespace ?pool) messageConfirm (Some 1) = Some ?infl"
    and gt: "getInFlight exOne (Namespace ?transfer) messageConfirm (Some 1) = Some ?infl"
    using g by (simp_all add: exEvent_def)
  have lp: "entityLookup (database exOne) ?pool = Some (False, None)"
    by (simp add: entityLookup_def exOne_fields exDatabase_def exEvent_def)
  have lt: "entityLookup (database exOne) ?transfer
              = Some (False, Some (PluginError ''database closed''))"
    by (simp add: entityLookup_def exOne_fields exDatabase_def exEvent_def)
  have np: "(None :: error option) \<noteq> None \<or> \<not> False" by simp
  have nt: "Some (PluginError ''database closed'') \<noteq> None \<or> \<not> False" by simp
  from eventCallback_lookup_failure[OF gp lp np, of exRetrieve]
    eventCallback_lookup_failure[OF gt lt nt, of exRetrieve] g lp lt
  show ?thesis by (simp add: exOne_fields)
qed

text \<open>
  C3 (corrected). The claim: a message-confirmed event whose message has \<open>Id = A\<close> and
  \<open>CorrelationId = B\<close>, with \<open>A\<close> registered as a message-confirm request and \<open>B\<close> as a
  message-reply request, resolves both. The callback starts both resolvers, but
  \<^verbatim>\<open>resolveReply\<close> returns without sending when the message data cannot be read (lines
  293-297). Here requests 1 and 2 are registered, the data manager fails, the event is
  delivered and both resolvers have run: only the confirmation is sent on the channel of
  request 1, nothing is sent on the channel of request 2, and a receive on it blocks.
\<close>

theorem eventCallback_reply_unresolved_counterexample:
  "getInFlight exTwoNoData ''ns1'' messageConfirm (Some 1) =
     Some \<lparr>inflight_id = Some 1, startTime = 0, response = Chan 0 0, reqType = messageConfirm\<rparr>
   \<and> getInFlight exTwoNoData ''ns1'' messageReply (Some 2) =
     Some \<lparr>inflight_id = Some 2, startTime = 0, response = Chan 1 0, reqType = messageReply\<rparr>
   \<and> fst (GetMessageByID (database exTwoNoData) (Some 1)) =
     Some \<lparr>Header_ID = Some 1, Header_CID = Some 2\<rparr>
   \<and> snd (eventCallback exRetrieve exTwoNoData (exEvent EventTypeMessageConfirmed (Some 1)))
     = None
   \<and> goroutines (run exRetrieve exTwoNoData
        [DoEvent (exEvent EventTypeMessageConfirmed (Some 1)), DoSchedule 0, DoSchedule 0]) = []
   \<and> blockedSends (run exRetrieve exTwoNoData
        [DoEvent (exEvent EventTypeMessageConfirmed (Some 1)), DoSchedule 0, DoSchedule 0]) =
     [(Chan 0 0, \<lparr>reply_id = Some 1,
                  reply_data = MessageData \<lparr>Header_ID = Some 1, Header_CID = Some 2\<rparr>,
                  reply_err = None\<rparr>)]
   \<and> snd (selectStmt (run exRetrieve exTwoNoData
        [DoEvent (exEvent EventTypeMessageConfirmed (Some 1)), DoSchedule 0, DoSchedule 0])
        exPatient (Chan 1 0)) = SelectBlocks"
  by (simp add: exTwoNoData_def exTwo_inflight exTwo_fields exDatabase_def exEvent_def
        getInFlight_def run_def eventCallback_def lenZero_def getMessageFromEvent_def
        goIfFound_def schedule_def resolve_defs chanSend_def selectStmt_def chanRecv_def
        exPatient_def Let_def)

text \<open>
  C3 as amended: for every message-confirmed event whose message is found, delivered
  while its namespace has an inflight, the callback returns nil and starts the reply
  resolver exactly when the message's \<open>CorrelationId\<close> is registered as a message-reply
  request, and the confirmation resolver exactly when its \<open>Id\<close> is registered as a
  message-confirm request, each on its own lookup alone; so with \<open>Id = A\<close> and
  \<open>CorrelationId = B\<close> both registered it starts both, one goroutine each. The
  confirmation resolver sends the message on the channel of its request. The reply
  resolver sends the message with its data on the channel of its request when the data
  can be read; when the read fails it returns without sending, and that request is not
  resolved.
\<close>

theorem eventCallback_resolves_reply_and_confirm:
  assumes "Type event = EventTypeMessageConfirmed"
    and "GetMessageByID (database sa) (Reference event) = (Some msg, None)"
    and "getInFlight sa (Namespace event) rt i = Some infl"
    and "GetMessageData (data s) msg = (d, None)"
    and "GetMessageData (data s') msg = (d', Some e)"
  shows "eventCallback R sa event =
    (sa\<lparr>dbReads := dbReads sa @ [ReadMessage (Reference event)],
        goroutines := goroutines sa
          @ (case getInFlight sa (Namespace event) messageReply (Header_CID msg) of
               None \<Rightarrow> [] | Some ib \<Rightarrow> [GoResolveReply ib msg])
          @ (case getInFlight sa (Namespace event) messageConfirm (Header_ID msg) of
               None \<Rightarrow> [] | Some ia \<Rightarrow> [GoResolveConfirmed ia msg])\<rparr>, None)
   \<and> (getInFlight sa (Namespace event) messageConfirm (Header_ID msg) = Some ia \<and>
      getInFlight sa (Namespace event) messageReply (Header_CID msg) = Some ib \<longrightarrow>
        goroutines (fst (eventCallback R sa event)) =
          goroutines sa @ [GoResolveReply ib msg, GoResolveConfirmed ia msg])
   \<and> runGoroutine s'' (GoResolveConfirmed ia msg) =
       chanSend s'' (response ia)
         \<lparr>reply_id = Header_ID msg, reply_data = MessageData msg, reply_err = None\<rparr>
   \<and> runGoroutine s (GoResolveReply ib msg) =
       chanSend (s\<lparr>dbReads := dbReads s @ [ReadMessageData (Header_ID msg)]\<rparr>) (response ib)
         \<lparr>reply_id = Header_ID msg,
          reply_data = MessageInOutData \<lparr>InOut_Message = msg, InlineData = d\<rparr>,
          reply_err = None\<rparr>
   \<and> runGoroutine s' (GoResolveReply ib msg) =
       s'\<lparr>dbReads := dbReads s' @ [ReadMessageData (Header_ID msg)]\<rparr>"
proof -
  note cb = eventCallback_MessageConfirmed
    [OF getInFlight_lenZero[OF assms(3)] assms(1,2), of R]
  have both: "getInFlight sa (Namespace event) messageConfirm (Header_ID msg) = Some ia \<and>
      getInFlight sa (Namespace event) messageReply (Header_CID msg) = Some ib \<longrightarrow>
        goroutines (fst (eventCallback R sa event)) =
          goroutines sa @ [GoResolveReply ib msg, GoResolveConfirmed ia msg]"
    by (simp add: cb)
  have confirm: "runGoroutine s'' (GoResolveConfirmed ia msg) =
       chanSend s'' (response ia)
         \<lparr>reply_id = Header_ID msg, reply_data = MessageData msg, reply_err = None\<rparr>"
    by (simp add: resolveConfirmed_def)
  have reply: "runGoroutine s (GoResolveReply ib msg) =
       chanSend (s\<lparr>dbReads := dbReads s @ [ReadMessageData (Header_ID msg)]\<rparr>) (response ib)
         \<lparr>reply_id = Header_ID msg,
          reply_data = MessageInOutData \<lparr>InOut_Message = msg, InlineData = d\<rparr>,
          reply_err = None\<rparr>"
    using assms(4) by (simp add: resolveReply_def)
  have dropped: "runGoroutine s' (GoResolveReply ib msg) =
       s'\<lparr>dbReads := dbReads s' @ [ReadMessageData (Header_ID msg)]\<rparr>"
    using assms(5) by (simp add: resolveReply_def)
  from cb both confirm reply dropped show ?thesis by blast
qed

theorem eventCallback_resolves_reply_and_confirm_witness:
  "getInFlight exTwo ''ns1'' messageConfirm (Some 1) =
     Some \<lparr>inflight_id = Some 1, startTime = 0, response = Chan 0 0, reqType = messageConfirm\<rparr>
   \<and> getInFlight exTwo ''ns1'' messageReply (Some 2) =
     Some \<lparr>inflight_id = Some 2, startTime = 0, response = Chan 1 0, reqType = messageReply\<rparr>
   \<and> snd (eventCallback exRetrieve exTwo (exEvent EventTypeMessageConfirmed (Some 1))) = None
   \<and> goroutines (fst (eventCallback exRetrieve exTwo
        (exEvent EventTypeMessageConfirmed (Some 1)))) =
     [GoResolveReply
        \<lparr>inflight_id = Some 2, startTime = 0, response = Chan 1 0, reqType = messageReply\<rparr>
        \<lparr>Header_ID = Some 1, Header_CID = Some 2\<rparr>,
      GoResolveConfirmed
        \<lparr>inflight_id = Some 1, startTime = 0, response = Chan 0 0, reqType = messageConfirm\<rparr>
        \<lparr>Header_ID = Some 1, Header_CID = Some 2\<rparr>]
   \<and> goroutines (fst (eventCallback exRetrieve (fst (removeInFlight exTwo ''ns1'' (Some 1)))
        (exEvent EventTypeMessageConfirmed (Some 1)))) =
     [GoResolveReply
        \<lparr>inflight_id = Some 2, startTime = 0, response = Chan 1 0, reqType = messageReply\<rparr>
        \<lparr>Header_ID = Some 1, Header_CID = Some 2\<rparr>]
   \<and> blockedSends (runGoroutine exTwo (GoResolveReply
        \<lparr>inflight_id = Some 2, startTime = 0, response = Chan 1 0, reqType = messageReply\<rparr>
        \<lparr>Header_ID = Some 1, Header_CID = Some 2\<rparr>)) =
     [(Chan 1 0,
       \<lparr>reply_id = Some 1,
        reply_data = MessageInOutData
          \<lparr>InOut_Message = \<lparr>Header_ID = Some 1, Header_CID = Some 2\<rparr>,
           InlineData = [''payload'']\<rparr>,
        reply_err = None\<rparr>)]
   \<and> blockedSends (runGoroutine exTwoNoData (GoResolveReply
        \<lparr>inflight_id = Some 2, startTime = 0, response = Chan 1 0, reqType = messageReply\<rparr>
        \<lparr>Header_ID = Some 1, Header_CID = Some 2\<rparr>)) = []"
proof -
  let ?ev = "exEvent EventTypeMessageConfirmed (Some 1)"
  let ?msg = "\<lparr>Header_ID = Some (1::UUID), Header_CID = Some (2::UUID)\<rparr>"
  let ?ia = "\<lparr>inflight_id = Some (1::UUID), startTime = 0, response = Chan 0 0,
              reqType = messageConfirm\<rparr>"
  let ?ib = "\<lparr>inflight_id = Some (2::UUID), startTime = 0, response = Chan 1 0,
              reqType = messageReply\<rparr>"
  let ?one = "fst (removeInFlight exTwo ''ns1'' (Some 1))"
  have t: "Type ?ev = EventTypeMessageConfirmed" by (simp add: exEvent_def)
  have m: "GetMessageByID (database exTwo) (Reference ?ev) = (Some ?msg, None)"
    by (simp add: exTwo_fields exDatabase_def exEvent_def)
  have ga: "getInFlight exTwo (Namespace ?ev) messageConfirm (Header_ID ?msg) = Some ?ia"
    by (simp add: getInFlight_def exTwo_inflight exEvent_def)
  have gb: "getInFlight exTwo (Namespace ?ev) messageReply (Header_CID ?msg) = Some ?ib"
    by (simp add: getInFlight_def exTwo_inflight exEvent_def)
  have gb': "getInFlight exTwo (Namespace ?ev) messageReply (Some 2) = Some ?ib"
    using gb by simp
  have d: "GetMessageData (data exTwo) ?msg = ([''payload''], None)"
    by (simp add: exTwo_fields exData_def)
  have f: "GetMessageData (data exTwoNoData) ?msg = ([], Some (PluginError ''data missing''))"
    by (simp add: exTwoNoData_def)
  have m1: "GetMessageByID (database ?one) (Reference ?ev) = (Some ?msg, None)"
    by (simp add: removeInFlight_def exTwo_inflight exTwo_fields exDatabase_def exEvent_def)
  have g1: "getInFlight ?one (Namespace ?ev) messageReply (Some 2) = Some ?ib"
    by (simp add: getInFlight_def removeInFlight_def exTwo_inflight exEvent_def)
  have n1: "getInFlight ?one (Namespace ?ev) messageConfirm (Header_ID ?msg) = None"
    by (simp add: getInFlight_def removeInFlight_def exTwo_inflight exEvent_def)
  have r1: "getInFlight ?one (Namespace ?ev) messageReply (Header_CID ?msg) = Some ?ib"
    using g1 by simp
  have q1: "goroutines ?one = []"
    by (simp add: removeInFlight_def exTwo_inflight exTwo_fields)
  note both = eventCallback_resolves_reply_and_confirm
    [where R = exRetrieve and ia = ?ia and ib = ?ib, OF t m gb' d f]
  note only = eventCallback_resolves_reply_and_confirm
    [where R = exRetrieve and ia = ?ia and ib = ?ib, OF t m1 g1 d f]
  from both have b1: "eventCallback exRetrieve exTwo ?ev =
      (exTwo\<lparr>dbReads := dbReads exTwo @ [ReadMessage (Reference ?ev)],
         goroutines := goroutines exTwo
          @ (case getInFlight exTwo (Namespace ?ev) messageReply (Header_CID ?msg) of
               None \<Rightarrow> [] | Some ib \<Rightarrow> [GoResolveReply ib ?msg])
          @ (case getInFlight exTwo (Namespace ?ev) messageConfirm (Header_ID ?msg) of
               None \<Rightarrow> [] | Some ia \<Rightarrow> [GoResolveConfirmed ia ?msg])\<rparr>, None)"
    by blast
  from only have o1: "eventCallback exRetrieve ?one ?ev =
      (?one\<lparr>dbReads := dbReads ?one @ [ReadMessage (Reference ?ev)],
         goroutines := goroutines ?one
          @ (case getInFlight ?one (Namespace ?ev) messageReply (Header_CID ?msg) of
               None \<Rightarrow> [] | Some ib \<Rightarrow> [GoResolveReply ib ?msg])
          @ (case getInFlight ?one (Namespace ?ev) messageConfirm (Header_ID ?msg) of
               None \<Rightarrow> [] | Some ia \<Rightarrow> [GoResolveConfirmed ia ?msg])\<rparr>, None)"
    by blast
  from both have s1: "runGoroutine exTwo (GoResolveReply ?ib ?msg) =
       chanSend (exTwo\<lparr>dbReads := dbReads exTwo @ [ReadMessageData (Header_ID ?msg)]\<rparr>)
         (response ?ib)
         \<lparr>reply_id = Header_ID ?msg,
          reply_data = MessageInOutData \<lparr>InOut_Message = ?msg, InlineData = [''payload'']\<rparr>,
          reply_err = None\<rparr>"
    by blast
  from both have s2: "runGoroutine exTwoNoData (GoResolveReply ?ib ?msg) =
       exTwoNoData\<lparr>dbReads := dbReads exTwoNoData @ [ReadMessageData (Header_ID ?msg)]\<rparr>"
    by blast
  have c1: "goroutines (fst (eventCallback exRetrieve exTwo ?ev)) =
              [GoResolveReply ?ib ?msg, GoResolveConfirmed ?ia ?msg]"
    unfolding b1 ga gb by (simp add: exTwo_fields)
  have c2: "snd (eventCallback exRetrieve exTwo ?ev) = None"
    unfolding b1 by simp
  have c3: "goroutines (fst (eventCallback exRetrieve ?one ?ev)) = [GoResolveReply ?ib ?msg]"
    unfolding o1 n1 r1 by (simp add: q1)
  have c4: "blockedSends (runGoroutine exTwo (GoResolveReply ?ib ?msg)) =
     [(Chan 1 0,
       \<lparr>reply_id = Some 1,
        reply_data = MessageInOutData \<lparr>InOut_Message = ?msg, InlineData = [''payload'']\<rparr>,
        reply_err = None\<rparr>)]"
    unfolding s1 by (simp add: chanSend_def exTwo_fields)
  have c5: "blockedSends (runGoroutine exTwoNoData (GoResolveReply ?ib ?msg)) = []"
    unfolding s2 by (simp add: exTwoNoData_def exTwo_fields)
  from ga gb c1 c2 c3 c4 c5 show ?thesis by (simp add: exEvent_def)
qed





text \<open>
  C2 (corrected). The claim: the response slot has capacity 1, and a resolver that sends
  on a slot already used does not block and drops its value. In the code the channel is
  made without a capacity (line 105) and all seven resolvers send with a plain send
  statement. Here a confirmation and a rejection of message 1 both arrive while the
  caller of \<^verbatim>\<open>sendAndWait\<close> is in \<^verbatim>\<open>send\<close>: the caller receives the confirmation and
  returns, and after its return the rejection's resolver is still parked in its send
  on the channel of capacity 0.
\<close>

theorem response_capacity_counterexample:
  "snd (addInFlight exFirstCaller ''ns1'' (deref exFirstCaller (Some 0)) messageConfirm) =
     Ok \<lparr>inflight_id = Some 1, startTime = 0, response = Chan 0 0, reqType = messageConfirm\<rparr>
   \<and> chanCap (Chan 0 0) \<noteq> 1
   \<and> snd (sendAndWait exFirstCaller exPatient ''ns1'' (Some 0) messageConfirm exSendTwice) =
       Returns (MessageData \<lparr>Header_ID = Some 1, Header_CID = Some 2\<rparr>, None)
   \<and> blockedSends (fst (sendAndWait exFirstCaller exPatient ''ns1'' (Some 0) messageConfirm
        exSendTwice)) =
       [(Chan 0 0, \<lparr>reply_id = None, reply_data = NoData,
                    reply_err = Some (MsgRejected (Some 1))\<rparr>)]"
  by (simp add: sendAndWait_def addInFlight_def Let_def exFirstCaller_def ex_defs
        exPatient_def exSendTwice_def
        run_def eventCallback_def lenZero_def getMessageFromEvent_def getInFlight_def
        goIfFound_def schedule_def resolve_defs chanSend_def
        selectStmt_def chanRecv_def deferred_def removeInFlight_def)

text \<open>
  C2 as amended: for every inflight created by \<^verbatim>\<open>addInFlight\<close> the response slot is an
  unbuffered channel (capacity 0). Each of the seven resolvers, run on that inflight,
  sends its result with a blocking send (\<^verbatim>\<open>resolveReply\<close> once the message data is read):
  the value is not dropped and the send does not complete on its own; the goroutine
  parks with the value, and stays parked through every step of the bridge that is not a
  receive on that slot. The \<^verbatim>\<open>select\<close> of \<^verbatim>\<open>sendAndWait\<close>, the only receive in the code,
  releases at most one parked sender.
\<close>

theorem response_unbuffered_send_blocks:
  assumes "snd (addInFlight sa ns i rt) = Ok infl"
    and "DoReceive (response infl) \<notin> set acts"
    and "GetMessageData (data s) msg = (d, None)"
    and "g \<in> set [GoResolveReply infl msg, GoResolveConfirmed infl msg,
                   GoResolveRejected infl u, GoResolveConfirmedTokenPool infl pool,
                   GoResolveRejectedTokenPool infl u,
                   GoResolveConfirmedTokenTransfer infl transfer,
                   GoResolveFailedTokenTransfer infl u]"
  shows "chanCap (response infl) = 0
   \<and> resolveReply s infl msg =
       s\<lparr>dbReads := dbReads s @ [ReadMessageData (Header_ID msg)],
         blockedSends := blockedSends s @
           [(response infl,
             \<lparr>reply_id = Header_ID msg,
              reply_data = MessageInOutData \<lparr>InOut_Message = msg, InlineData = d\<rparr>,
              reply_err = None\<rparr>)]\<rparr>
   \<and> resolveConfirmed s infl msg =
       s\<lparr>blockedSends := blockedSends s @
           [(response infl,
             \<lparr>reply_id = Header_ID msg, reply_data = MessageData msg, reply_err = None\<rparr>)]\<rparr>
   \<and> resolveRejected s infl u =
       s\<lparr>blockedSends := blockedSends s @
           [(response infl,
             \<lparr>reply_id = None, reply_data = NoData, reply_err = Some (MsgRejected u)\<rparr>)]\<rparr>
   \<and> resolveConfirmedTokenPool s infl pool =
       s\<lparr>blockedSends := blockedSends s @
           [(response infl,
             \<lparr>reply_id = Pool_ID pool, reply_data = TokenPoolData pool, reply_err = None\<rparr>)]\<rparr>
   \<and> resolveRejectedTokenPool s infl u =
       s\<lparr>blockedSends := blockedSends s @
           [(response infl,
             \<lparr>reply_id = None, reply_data = NoData,
              reply_err = Some (MsgTokenPoolRejected u)\<rparr>)]\<rparr>
   \<and> resolveConfirmedTokenTransfer s infl transfer =
       s\<lparr>blockedSends := blockedSends s @
           [(response infl,
             \<lparr>reply_id = LocalID transfer, reply_data = TokenTransferData transfer,
              reply_err = None\<rparr>)]\<rparr>
   \<and> resolveFailedTokenTransfer s infl u =
       s\<lparr>blockedSends := blockedSends s @
           [(response infl,
             \<lparr>reply_id = None, reply_data = NoData,
              reply_err = Some (MsgTokenTransferFailed u)\<rparr>)]\<rparr>
   \<and> (\<exists>v. blockedSends (runGoroutine s g) = blockedSends s @ [(response infl, v)]
          \<and> (response infl, v) \<in> set (blockedSends (run R (runGoroutine s g) acts)))
   \<and> ((\<exists>w. blockedSends (fst (selectStmt s ctx (response infl)))
                  = remove1 (response infl, w) (blockedSends s))
        \<or> blockedSends (fst (selectStmt s ctx (response infl))) = blockedSends s)"
proof -
  have cap: "chanCap (response infl) = 0"
    using addInFlight_Ok_response[OF assms(1)] by simp
  note send = chanSend_unbuffered[OF cap]
  have r1: "resolveReply s infl msg =
       s\<lparr>dbReads := dbReads s @ [ReadMessageData (Header_ID msg)],
         blockedSends := blockedSends s @
           [(response infl,
             \<lparr>reply_id = Header_ID msg,
              reply_data = MessageInOutData \<lparr>InOut_Message = msg, InlineData = d\<rparr>,
              reply_err = None\<rparr>)]\<rparr>"
    using assms(3) by (simp add: resolveReply_def send)
  have r2: "resolveConfirmed s infl msg =
       s\<lparr>blockedSends := blockedSends s @
           [(response infl,
             \<lparr>reply_id = Header_ID msg, reply_data = MessageData msg, reply_err = None\<rparr>)]\<rparr>"
    by (simp add: resolveConfirmed_def send)
  have r3: "resolveRejected s infl u =
       s\<lparr>blockedSends := blockedSends s @
           [(response infl,
             \<lparr>reply_id = None, reply_data = NoData, reply_err = Some (MsgRejected u)\<rparr>)]\<rparr>"
    by (simp add: resolveRejected_def send)
  have r4: "resolveConfirmedTokenPool s infl pool =
       s\<lparr>blockedSends := blockedSends s @
           [(response infl,
             \<lparr>reply_id = Pool_ID pool, reply_data = TokenPoolData pool, reply_err = None\<rparr>)]\<rparr>"
    by (simp add: resolveConfirmedTokenPool_def send)
  have r5: "resolveRejectedTokenPool s infl u =
       s\<lparr>blockedSends := blockedSends s @
           [(response infl,
             \<lparr>reply_id = None, reply_data = NoData,
              reply_err = Some (MsgTokenPoolRejected u)\<rparr>)]\<rparr>"
    by (simp add: resolveRejectedTokenPool_def send)
  have r6: "resolveConfirmedTokenTransfer s infl transfer =
       s\<lparr>blockedSends := blockedSends s @
           [(response infl,
             \<lparr>reply_id = LocalID transfer, reply_data = TokenTransferData transfer,
              reply_err = None\<rparr>)]\<rparr>"
    by (simp add: resolveConfirmedTokenTransfer_def send)
  have r7: "resolveFailedTokenTransfer s infl u =
       s\<lparr>blockedSends := blockedSends s @
           [(response infl,
             \<lparr>reply_id = None, reply_data = NoData,
              reply_err = Some (MsgTokenTransferFailed u)\<rparr>)]\<rparr>"
    by (simp add: resolveFailedTokenTransfer_def send)
  have "\<exists>v. blockedSends (runGoroutine s g) = blockedSends s @ [(response infl, v)]"
    using assms(4) r1 r2 r3 r4 r5 r6 r7 by auto
  then obtain v where v: "blockedSends (runGoroutine s g) = blockedSends s @ [(response infl, v)]"
    by blast
  then have "(response infl, v) \<in> set (blockedSends (runGoroutine s g))" by simp
  then have "(response infl, v) \<in> set (blockedSends (run R (runGoroutine s g) acts))"
    by (rule run_keeps[OF assms(2)])
  with v have parked:
    "\<exists>v. blockedSends (runGoroutine s g) = blockedSends s @ [(response infl, v)]
        \<and> (response infl, v) \<in> set (blockedSends (run R (runGoroutine s g) acts))"
    by blast
  note sel = selectStmt_takes_one[of s ctx "response infl"]
  show ?thesis
    by (intro conjI cap r1 r2 r3 r4 r5 r6 r7 parked sel)
qed

theorem response_unbuffered_send_blocks_witness:
  "snd (addInFlight exBridge ''ns1'' (Some 1) messageConfirm) =
     Ok \<lparr>inflight_id = Some 1, startTime = 0, response = Chan 0 0, reqType = messageConfirm\<rparr>
   \<and> DoReceive (Chan 0 0) \<notin>
       set [DoRemove ''ns1'' (Some 1), DoAdd ''ns1'' (Some 2) messageReply,
            DoEvent (exEvent EventTypeMessageConfirmed (Some 2)), DoSchedule 0,
            DoReceive (Chan 1 0)]
   \<and> blockedSends (runGoroutine exOne (GoResolveRejected
        \<lparr>inflight_id = Some 1, startTime = 0, response = Chan 0 0, reqType = messageConfirm\<rparr>
        (Some 1))) =
       [(Chan 0 0, \<lparr>reply_id = None, reply_data = NoData,
                    reply_err = Some (MsgRejected (Some 1))\<rparr>)]
   \<and> (Chan 0 0, \<lparr>reply_id = None, reply_data = NoData,
                  reply_err = Some (MsgRejected (Some 1))\<rparr>)
       \<in> set (blockedSends (run exRetrieve
            (runGoroutine exOne (GoResolveRejected
               \<lparr>inflight_id = Some 1, startTime = 0, response = Chan 0 0,
                reqType = messageConfirm\<rparr> (Some 1)))
            [DoRemove ''ns1'' (Some 1), DoAdd ''ns1'' (Some 2) messageReply,
             DoEvent (exEvent EventTypeMessageConfirmed (Some 2)), DoSchedule 0,
             DoReceive (Chan 1 0)]))"
proof -
  let ?infl = "\<lparr>inflight_id = Some (1::UUID), startTime = 0, response = Chan 0 0,
                reqType = messageConfirm\<rparr>"
  let ?acts = "[DoRemove ''ns1'' (Some 1), DoAdd ''ns1'' (Some 2) messageReply,
            DoEvent (exEvent EventTypeMessageConfirmed (Some 2)), DoSchedule 0,
            DoReceive (Chan 1 0)]"
  let ?msg = "\<lparr>Header_ID = Some (1::UUID), Header_CID = Some (2::UUID)\<rparr>"
  let ?g = "GoResolveRejected ?infl (Some 1)"
  have n: "DoReceive (response ?infl) \<notin> set ?acts" by simp
  have d: "GetMessageData (data exOne) ?msg = ([''payload''], None)"
    by (simp add: exOne_fields exData_def)
  have g: "?g \<in> set [GoResolveReply ?infl ?msg, GoResolveConfirmed ?infl ?msg,
                   GoResolveRejected ?infl (Some 1),
                   GoResolveConfirmedTokenPool ?infl \<lparr>Pool_ID = None\<rparr>,
                   GoResolveRejectedTokenPool ?infl (Some 1),
                   GoResolveConfirmedTokenTransfer ?infl \<lparr>LocalID = None\<rparr>,
                   GoResolveFailedTokenTransfer ?infl (Some 1)]" by simp
  note t = response_unbuffered_send_blocks[where R = exRetrieve, OF exOne_add n d g]
  from t obtain v where
    v: "blockedSends (runGoroutine exOne ?g) = blockedSends exOne @ [(response ?infl, v)]"
    and k: "(response ?infl, v) \<in> set (blockedSends (run exRetrieve (runGoroutine exOne ?g) ?acts))"
    by blast
  from t have r: "resolveRejected exOne ?infl (Some 1) =
       exOne\<lparr>blockedSends := blockedSends exOne @
           [(response ?infl,
             \<lparr>reply_id = None, reply_data = NoData,
              reply_err = Some (MsgRejected (Some 1))\<rparr>)]\<rparr>"
    by blast
  from v r have "v = \<lparr>reply_id = None, reply_data = NoData,
                       reply_err = Some (MsgRejected (Some 1))\<rparr>"
    by simp
  with k v exOne_add n show ?thesis by (simp add: exOne_fields)
qed

text \<open>
  C5 (confirmed). Over any run of the bridge from its construction: take an
  \<^verbatim>\<open>addInFlight\<close> in a namespace for which \<^verbatim>\<open>AddSystemEventListener\<close> has not been called
  so far, made while the event bus is set and accepts the listener (the first invocation
  succeeds). That call of \<^verbatim>\<open>addInFlight\<close> invokes \<^verbatim>\<open>AddSystemEventListener\<close> for the
  namespace, and whatever follows (registrations and removals in this and other
  namespaces, deliveries, resolver runs, receives, a bus that answers differently) no
  second invocation for the namespace is made: in the end it has been invoked exactly
  once.
\<close>

theorem listener_attached_once:
  assumes "callsFor ns (listenerCalls (run R (NewSyncAsyncBridge di dm) before)) = []"
    and "sysevents (run R (NewSyncAsyncBridge di dm) before) = Some se"
    and "se ns = None"
  shows "callsFor ns (listenerCalls
           (run R (NewSyncAsyncBridge di dm) (before @ DoAdd ns i rt # after)))
         = [(ns, None)]"
proof -
  let ?s0 = "run R (NewSyncAsyncBridge di dm) before"
  let ?s1 = "fst (addInFlight ?s0 ns i rt)"
  have inv: "listenerInv ?s0" by (rule listenerInv_run[OF listenerInv_New])
  have norow: "inflight ?s0 ns = None" by (rule listenerInv_no_call[OF inv assms(1)])
  have "listenerCalls ?s1 = listenerCalls ?s0 @ [(ns, None)]"
    using norow assms(2,3) by (simp add: addInFlight_listenerCalls)
  then have call: "callsFor ns (listenerCalls ?s1) = [(ns, None)]"
    using assms(1) by simp
  have row: "inflight ?s1 ns \<noteq> None"
    using assms(2,3) by (simp add: addInFlight_row)
  have "run R (NewSyncAsyncBridge di dm) (before @ DoAdd ns i rt # after) = run R ?s1 after"
    by (simp add: run_append run_Cons)
  with run_row_keeps[OF row, of R after] call show ?thesis by simp
qed

theorem listener_attached_once_witness:
  "callsFor ''ns2'' (listenerCalls (run exRetrieve (NewSyncAsyncBridge exDatabase exData)
      ([DoInit (Some (\<lambda>ns. None)), DoAdd ''ns1'' (Some 1) messageConfirm,
        DoRemove ''ns1'' (Some 1)]
       @ DoAdd ''ns2'' (Some 2) messageReply
       # [DoRemove ''ns2'' (Some 2), DoAdd ''ns1'' (Some 3) tokenPoolConfirm,
          DoInit (Some (\<lambda>ns. Some (PluginError ''bus closed''))),
          DoAdd ''ns2'' (Some 4) messageConfirm, DoAdd ''ns3'' (Some 5) messageConfirm,
          DoRemove ''ns2'' (Some 4)])))
     = [(''ns2'', None)]"
proof -
  let ?before = "[DoInit (Some (\<lambda>ns. None)), DoAdd ''ns1'' (Some 1) messageConfirm,
                  DoRemove ''ns1'' (Some 1)]"
  have none: "callsFor ''ns2'' (listenerCalls
                 (run exRetrieve (NewSyncAsyncBridge exDatabase exData) ?before)) = []"
    by (simp add: run_def callsFor_def ex_defs addInFlight_def removeInFlight_def Let_def)
  have bus: "sysevents (run exRetrieve (NewSyncAsyncBridge exDatabase exData) ?before)
               = Some (\<lambda>ns. None)"
    by (simp add: run_def ex_defs addInFlight_def removeInFlight_def Let_def)
  have ok: "(\<lambda>ns::string. None :: error option) ''ns2'' = None" by simp
  from listener_attached_once[OF none bus ok] show ?thesis .
qed


end
